theory Spec2Isabelle
  imports Main "HOL-Library.Word"
begin

unbundle bit_operations_syntax

section \<open>The host's floating point: IEEE-754 binary32 and binary64 on bit patterns\<close>

text \<open>
  The executors are C++ compiled for x86-64 (SSE2): \<open>float\<close> is binary32, \<open>double\<close> is
  binary64, the rounding mode is round-to-nearest-even, and every operation ORs the exceptions
  it raises into the sticky flags of the floating-point environment (\<open><cfenv>\<close>).
  A value is modelled by its bit pattern; an operation returns the result's bit pattern and
  the flags it raises.
\<close>

type_synonym f32 = "32 word"
type_synonym f64 = "64 word"

record fenv_t =
  FE_INVALID :: bool
  FE_DIVBYZERO :: bool
  FE_OVERFLOW :: bool
  FE_UNDERFLOW :: bool
  FE_INEXACT :: bool

definition fe_none :: fenv_t where
  "fe_none = \<lparr>FE_INVALID = False, FE_DIVBYZERO = False, FE_OVERFLOW = False,
              FE_UNDERFLOW = False, FE_INEXACT = False\<rparr>"

definition fe_invalid :: fenv_t where
  "fe_invalid = fe_none\<lparr>FE_INVALID := True\<rparr>"

definition fe_divbyzero :: fenv_t where
  "fe_divbyzero = fe_none\<lparr>FE_DIVBYZERO := True\<rparr>"

text \<open>Raising flags: the environment's flags are sticky, a raise can only set them.\<close>

definition fe_or :: "fenv_t \<Rightarrow> fenv_t \<Rightarrow> fenv_t" where
  "fe_or x y = \<lparr>FE_INVALID = FE_INVALID x \<or> FE_INVALID y,
               FE_DIVBYZERO = FE_DIVBYZERO x \<or> FE_DIVBYZERO y,
               FE_OVERFLOW = FE_OVERFLOW x \<or> FE_OVERFLOW y,
               FE_UNDERFLOW = FE_UNDERFLOW x \<or> FE_UNDERFLOW y,
               FE_INEXACT = FE_INEXACT x \<or> FE_INEXACT y\<rparr>"

subsection \<open>Formats\<close>

text \<open>A format is its precision (significand bits, the hidden one included) and the width of
  its exponent field. Encodings are natural numbers below \<open>2 ^ (prec + ebits)\<close>.\<close>

record format =
  prec :: nat
  ebits :: nat

definition binary32 :: format where
  "binary32 = \<lparr>prec = 24, ebits = 8\<rparr>"

definition binary64 :: format where
  "binary64 = \<lparr>prec = 53, ebits = 11\<rparr>"

definition fbits :: "format \<Rightarrow> nat" where
  "fbits f = prec f - 1"

definition expmax :: "format \<Rightarrow> nat" where
  "expmax f = 2 ^ ebits f - 1"

definition bias :: "format \<Rightarrow> int" where
  "bias f = 2 ^ (ebits f - 1) - 1"

text \<open>The exponent of the last place of a subnormal number: \<open>-149\<close> and \<open>-1074\<close>.\<close>

definition qmin :: "format \<Rightarrow> int" where
  "qmin f = 1 - bias f - int (fbits f)"

definition fp_sign :: "format \<Rightarrow> nat \<Rightarrow> bool" where
  "fp_sign f x = odd (x div 2 ^ (fbits f + ebits f))"

definition fp_exp :: "format \<Rightarrow> nat \<Rightarrow> nat" where
  "fp_exp f x = (x div 2 ^ fbits f) mod 2 ^ ebits f"

definition fp_frac :: "format \<Rightarrow> nat \<Rightarrow> nat" where
  "fp_frac f x = x mod 2 ^ fbits f"

definition fp_nan :: "format \<Rightarrow> nat \<Rightarrow> bool" where
  "fp_nan f x \<longleftrightarrow> fp_exp f x = expmax f \<and> fp_frac f x \<noteq> 0"

definition fp_snan :: "format \<Rightarrow> nat \<Rightarrow> bool" where
  "fp_snan f x \<longleftrightarrow> fp_nan f x \<and> fp_frac f x < 2 ^ (fbits f - 1)"

definition fp_inf :: "format \<Rightarrow> nat \<Rightarrow> bool" where
  "fp_inf f x \<longleftrightarrow> fp_exp f x = expmax f \<and> fp_frac f x = 0"

definition fp_zero :: "format \<Rightarrow> nat \<Rightarrow> bool" where
  "fp_zero f x \<longleftrightarrow> fp_exp f x = 0 \<and> fp_frac f x = 0"

definition sign_enc :: "format \<Rightarrow> bool \<Rightarrow> nat" where
  "sign_enc f s = (if s then 2 ^ (fbits f + ebits f) else 0)"

definition inf_enc :: "format \<Rightarrow> bool \<Rightarrow> nat" where
  "inf_enc f s = sign_enc f s + expmax f * 2 ^ fbits f"

definition zero_enc :: "format \<Rightarrow> bool \<Rightarrow> nat" where
  "zero_enc f s = sign_enc f s"

text \<open>The NaN an x86 operation returns for an invalid operation (the "real indefinite":
  sign set, quiet bit set, payload zero).\<close>

definition default_nan :: "format \<Rightarrow> nat" where
  "default_nan f = sign_enc f True + expmax f * 2 ^ fbits f + 2 ^ (fbits f - 1)"

text \<open>Quieting a NaN sets the top bit of its fraction.\<close>

definition quiet_enc :: "format \<Rightarrow> nat \<Rightarrow> nat" where
  "quiet_enc f x = (if fp_frac f x < 2 ^ (fbits f - 1) then x + 2 ^ (fbits f - 1) else x)"

text \<open>A finite number is \<open>(-1)^s * m * 2^e\<close> with the significand \<open>m\<close> a natural number.\<close>

definition fp_mant :: "format \<Rightarrow> nat \<Rightarrow> nat" where
  "fp_mant f x = (if fp_exp f x = 0 then fp_frac f x else 2 ^ fbits f + fp_frac f x)"

definition fp_expo :: "format \<Rightarrow> nat \<Rightarrow> int" where
  "fp_expo f x = (if fp_exp f x = 0 then qmin f else int (fp_exp f x) - 1 + qmin f)"

subsection \<open>Rounding to nearest, ties to even\<close>

fun bitlen :: "nat \<Rightarrow> nat" where
  "bitlen n = (if n = 0 then 0 else Suc (bitlen (n div 2)))"

declare bitlen.simps [simp del]

text \<open>\<open>rne m sh\<close>: the integer nearest to \<open>m / 2^sh\<close>, the even one at a tie.\<close>

definition rne :: "nat \<Rightarrow> nat \<Rightarrow> nat" where
  "rne m sh =
     (let M0 = m div 2 ^ sh; r = m mod 2 ^ sh; h = 2 ^ (sh - 1)
      in if sh = 0 then m
         else if h < r \<or> (r = h \<and> odd M0) then M0 + 1 else M0)"

text \<open>
  \<open>fp_round f s m e\<close> rounds the exact value \<open>(-1)^s * m * 2^e\<close> into format \<open>f\<close>.
  The result's last place has exponent \<open>q\<close>: \<open>prec f\<close> bits below the leading bit of \<open>m\<close>,
  but not below \<open>qmin f\<close> (subnormal results). The encoding adds the significand to the
  exponent field, so that the hidden bit, and a carry out of the rounding, advance the exponent.
  Overflow gives infinity and raises overflow and inexact; underflow is raised when the result
  is inexact and tiny, tininess being detected after rounding, as SSE does.
\<close>

definition fp_round :: "format \<Rightarrow> bool \<Rightarrow> nat \<Rightarrow> int \<Rightarrow> nat \<times> fenv_t" where
  "fp_round f s m e =
     (if m = 0 then (zero_enc f s, fe_none)
      else
        let n = bitlen m;
            qu = e + int n - int (prec f);
            q = max (qmin f) qu;
            sh = nat (q - e);
            M = (if q \<le> e then m * 2 ^ nat (e - q) else rne m sh);
            inexact = (e < q \<and> m mod 2 ^ sh \<noteq> 0);
            enc = nat (q - qmin f) * 2 ^ fbits f + M;
            Mu = (if qu \<le> e then m * 2 ^ nat (e - qu) else rne m (nat (qu - e)));
            tiny = (if Mu < 2 ^ prec f then qu < qmin f else qu + 1 < qmin f)
        in if expmax f * 2 ^ fbits f \<le> enc
           then (inf_enc f s, fe_none\<lparr>FE_OVERFLOW := True, FE_INEXACT := True\<rparr>)
           else (sign_enc f s + enc,
                 fe_none\<lparr>FE_UNDERFLOW := tiny \<and> inexact, FE_INEXACT := inexact\<rparr>))"

text \<open>The sign of an exact zero sum: the common sign of the summands, else \<open>+0\<close>.\<close>

definition fp_round_sum :: "format \<Rightarrow> bool \<Rightarrow> bool \<Rightarrow> int \<Rightarrow> int \<Rightarrow> nat \<times> fenv_t" where
  "fp_round_sum f sx sy v e =
     (if v = 0 then (zero_enc f (sx \<and> sy), fe_none)
      else fp_round f (v < 0) (nat \<bar>v\<bar>) e)"

definition sgn_int :: "bool \<Rightarrow> nat \<Rightarrow> int" where
  "sgn_int s m = (if s then - int m else int m)"

subsection \<open>Arithmetic\<close>

text \<open>NaN operands of an SSE operation: the first operand if it is a NaN, else the second,
  quieted; invalid is raised for a signalling NaN.\<close>

definition fp_nan2 :: "format \<Rightarrow> nat \<Rightarrow> nat \<Rightarrow> nat \<times> fenv_t" where
  "fp_nan2 f x y =
     (quiet_enc f (if fp_nan f x then x else y),
      if fp_snan f x \<or> fp_snan f y then fe_invalid else fe_none)"

definition fp_add :: "format \<Rightarrow> nat \<Rightarrow> nat \<Rightarrow> nat \<times> fenv_t" where
  "fp_add f x y =
     (if fp_nan f x \<or> fp_nan f y then fp_nan2 f x y
      else if fp_inf f x then
        (if fp_inf f y \<and> fp_sign f x \<noteq> fp_sign f y then (default_nan f, fe_invalid)
         else (x, fe_none))
      else if fp_inf f y then (y, fe_none)
      else
        let e = min (fp_expo f x) (fp_expo f y);
            a = sgn_int (fp_sign f x) (fp_mant f x) * 2 ^ nat (fp_expo f x - e);
            b = sgn_int (fp_sign f y) (fp_mant f y) * 2 ^ nat (fp_expo f y - e)
        in fp_round_sum f (fp_sign f x) (fp_sign f y) (a + b) e)"

definition fp_neg :: "format \<Rightarrow> nat \<Rightarrow> nat" where
  "fp_neg f x = (if fp_sign f x then x - 2 ^ (fbits f + ebits f) else x + 2 ^ (fbits f + ebits f))"

definition fp_sub :: "format \<Rightarrow> nat \<Rightarrow> nat \<Rightarrow> nat \<times> fenv_t" where
  "fp_sub f x y =
     (if fp_nan f x \<or> fp_nan f y then fp_nan2 f x y else fp_add f x (fp_neg f y))"

definition fp_mul :: "format \<Rightarrow> nat \<Rightarrow> nat \<Rightarrow> nat \<times> fenv_t" where
  "fp_mul f x y =
     (let s = (fp_sign f x \<noteq> fp_sign f y)
      in if fp_nan f x \<or> fp_nan f y then fp_nan2 f x y
         else if (fp_inf f x \<and> fp_zero f y) \<or> (fp_zero f x \<and> fp_inf f y)
           then (default_nan f, fe_invalid)
         else if fp_inf f x \<or> fp_inf f y then (inf_enc f s, fe_none)
         else fp_round f s (fp_mant f x * fp_mant f y) (fp_expo f x + fp_expo f y))"

text \<open>Division: the quotient of the significands is computed with more than \<open>prec f + 2\<close>
  bits and a sticky last bit for the remainder, which rounds as the exact quotient does.\<close>

definition fp_div :: "format \<Rightarrow> nat \<Rightarrow> nat \<Rightarrow> nat \<times> fenv_t" where
  "fp_div f x y =
     (let s = (fp_sign f x \<noteq> fp_sign f y)
      in if fp_nan f x \<or> fp_nan f y then fp_nan2 f x y
         else if (fp_inf f x \<and> fp_inf f y) \<or> (fp_zero f x \<and> fp_zero f y)
           then (default_nan f, fe_invalid)
         else if fp_inf f x then (inf_enc f s, fe_none)
         else if fp_inf f y then (zero_enc f s, fe_none)
         else if fp_zero f y then (inf_enc f s, fe_divbyzero)
         else
           let k = 2 * prec f + 2;
               n = fp_mant f x * 2 ^ k;
               d = fp_mant f y;
               Q = n div d;
               m = 2 * Q + (if n mod d = 0 then 0 else 1)
           in fp_round f s m (fp_expo f x - fp_expo f y - int k - 1))"

text \<open>The fused multiply-add \<open>x * y + z\<close>: the product is exact, one rounding at the end.
  The executors call it on operands that are not NaN only.\<close>

definition fp_fma :: "format \<Rightarrow> nat \<Rightarrow> nat \<Rightarrow> nat \<Rightarrow> nat \<times> fenv_t" where
  "fp_fma f x y z =
     (let sp = (fp_sign f x \<noteq> fp_sign f y)
      in if fp_nan f x \<or> fp_nan f y \<or> fp_nan f z then
           (quiet_enc f (if fp_nan f x then x else if fp_nan f y then y else z),
            if fp_snan f x \<or> fp_snan f y \<or> fp_snan f z then fe_invalid else fe_none)
         else if (fp_inf f x \<and> fp_zero f y) \<or> (fp_zero f x \<and> fp_inf f y)
           then (default_nan f, fe_invalid)
         else if fp_inf f x \<or> fp_inf f y then
           (if fp_inf f z \<and> fp_sign f z \<noteq> sp then (default_nan f, fe_invalid)
            else (inf_enc f sp, fe_none))
         else if fp_inf f z then (z, fe_none)
         else
           let ep = fp_expo f x + fp_expo f y;
               e = min ep (fp_expo f z);
               a = sgn_int sp (fp_mant f x * fp_mant f y) * 2 ^ nat (ep - e);
               b = sgn_int (fp_sign f z) (fp_mant f z) * 2 ^ nat (fp_expo f z - e)
           in fp_round_sum f sp (fp_sign f z) (a + b) e)"

text \<open>The integer square root, and the square root of a format: the root of the scaled
  significand with a sticky last bit.\<close>

fun isqrt :: "nat \<Rightarrow> nat" where
  "isqrt n =
     (if n < 2 then n
      else let r = 2 * isqrt (n div 4)
           in if (r + 1) * (r + 1) \<le> n then r + 1 else r)"

declare isqrt.simps [simp del]

definition fp_sqrt :: "format \<Rightarrow> nat \<Rightarrow> nat \<times> fenv_t" where
  "fp_sqrt f x =
     (if fp_nan f x then (quiet_enc f x, if fp_snan f x then fe_invalid else fe_none)
      else if fp_zero f x then (x, fe_none)
      else if fp_sign f x then (default_nan f, fe_invalid)
      else if fp_inf f x then (x, fe_none)
      else
        let odd_e = odd (fp_expo f x);
            m = (if odd_e then 2 * fp_mant f x else fp_mant f x);
            e = (if odd_e then fp_expo f x - 1 else fp_expo f x);
            k = prec f + 2;
            n = m * 2 ^ (2 * k);
            r = isqrt n;
            m' = 2 * r + (if r * r = n then 0 else 1)
        in fp_round f False m' (e div 2 - int k - 1))"

text \<open>Conversion between formats. A NaN keeps its sign and the high bits of its payload and
  is quieted (invalid is raised if it was signalling); anything else is rounded.\<close>

definition fp_convert :: "format \<Rightarrow> format \<Rightarrow> nat \<Rightarrow> nat \<times> fenv_t" where
  "fp_convert f g x =
     (if fp_nan f x then
        (sign_enc g (fp_sign f x) + expmax g * 2 ^ fbits g +
           quiet_enc g ((fp_frac f x * 2 ^ fbits g) div 2 ^ fbits f) mod 2 ^ fbits g,
         if fp_snan f x then fe_invalid else fe_none)
      else if fp_inf f x then (inf_enc g (fp_sign f x), fe_none)
      else fp_round g (fp_sign f x) (fp_mant f x) (fp_expo f x))"

text \<open>\<open>x >= 0\<close>: false for a NaN, on which the ordered comparison raises invalid.\<close>

definition fp_ge_zero :: "format \<Rightarrow> nat \<Rightarrow> bool \<times> fenv_t" where
  "fp_ge_zero f x =
     (if fp_nan f x then (False, fe_invalid)
      else (fp_zero f x \<or> \<not> fp_sign f x, fe_none))"

subsection \<open>The operations of the source, on words\<close>

definition lift32 :: "nat \<times> fenv_t \<Rightarrow> f32 \<times> fenv_t" where
  "lift32 r = (word_of_nat (fst r), snd r)"

definition lift64 :: "nat \<times> fenv_t \<Rightarrow> f64 \<times> fenv_t" where
  "lift64 r = (word_of_nat (fst r), snd r)"

definition f64_add :: "f64 \<Rightarrow> f64 \<Rightarrow> f64 \<times> fenv_t" where
  "f64_add a b = lift64 (fp_add binary64 (unat a) (unat b))"

definition f64_sub :: "f64 \<Rightarrow> f64 \<Rightarrow> f64 \<times> fenv_t" where
  "f64_sub a b = lift64 (fp_sub binary64 (unat a) (unat b))"

definition f64_mul :: "f64 \<Rightarrow> f64 \<Rightarrow> f64 \<times> fenv_t" where
  "f64_mul a b = lift64 (fp_mul binary64 (unat a) (unat b))"

definition f64_div :: "f64 \<Rightarrow> f64 \<Rightarrow> f64 \<times> fenv_t" where
  "f64_div a b = lift64 (fp_div binary64 (unat a) (unat b))"

definition f64_fma :: "f64 \<Rightarrow> f64 \<Rightarrow> f64 \<Rightarrow> f64 \<times> fenv_t" where
  "f64_fma a c b = lift64 (fp_fma binary64 (unat a) (unat c) (unat b))"

definition f32_div :: "f32 \<Rightarrow> f32 \<Rightarrow> f32 \<times> fenv_t" where
  "f32_div a b = lift32 (fp_div binary32 (unat a) (unat b))"

definition f32_sqrt :: "f32 \<Rightarrow> f32 \<times> fenv_t" where
  "f32_sqrt a = lift32 (fp_sqrt binary32 (unat a))"

text \<open>\<open>static_cast<float>(double)\<close> and \<open>static_cast<double>(float)\<close>.\<close>

definition f64_to_f32 :: "f64 \<Rightarrow> f32 \<times> fenv_t" where
  "f64_to_f32 a = lift32 (fp_convert binary64 binary32 (unat a))"

definition f32_to_f64 :: "f32 \<Rightarrow> f64 \<times> fenv_t" where
  "f32_to_f64 a = lift64 (fp_convert binary32 binary64 (unat a))"

text \<open>Unary minus and \<open>std::signbit\<close> act on the sign bit alone.\<close>

definition f64_neg :: "f64 \<Rightarrow> f64" where
  "f64_neg a = a XOR 0x8000000000000000"

definition f32_neg :: "f32 \<Rightarrow> f32" where
  "f32_neg a = a XOR 0x80000000"

definition signbit_d :: "f64 \<Rightarrow> bool" where
  "signbit_d a = bit a 63"

definition f32_ge_zero :: "f32 \<Rightarrow> bool \<times> fenv_t" where
  "f32_ge_zero a = fp_ge_zero binary32 (unat a)"

definition f32_one :: f32 where
  "f32_one = 0x3F800000"


section \<open>Bit-level helpers of the value model\<close>

text \<open>
  The executors call the predicates and conversions of \<open>utils/floatutils.h\<close>, a header of
  this repository that is not among the sources at hand. They are modelled from the
  specification (section 4.1) and from the comments at their call sites.
\<close>

text \<open>The bit fields of a double and of a float (the unions \<open>FloatBitsDouble\<close> and
  \<open>FloatBitsSingle\<close>): mantissa, exponent, sign, and the quiet bit, which is the top bit of
  the mantissa.\<close>

definition exponent_d :: "f64 \<Rightarrow> 11 word" where
  "exponent_d x = ucast (drop_bit 52 x)"

definition mantissa_d :: "f64 \<Rightarrow> 52 word" where
  "mantissa_d x = ucast x"

definition exponent_s :: "f32 \<Rightarrow> 8 word" where
  "exponent_s x = ucast (drop_bit 23 x)"

definition mantissa_s :: "f32 \<Rightarrow> 23 word" where
  "mantissa_s x = ucast x"

text \<open>Modelled from the spec: \<open>is_nan\<close> of \<open>utils/floatutils.h\<close> (header missing), on a
  double: the exponent field is all ones and the mantissa is not zero.\<close>

definition is_nan :: "f64 \<Rightarrow> bool" where
  "is_nan x \<longleftrightarrow> exponent_d x = 0x7FF \<and> mantissa_d x \<noteq> 0"

text \<open>Modelled from the spec: \<open>is_signalling_nan\<close> of \<open>utils/floatutils.h\<close> (header
  missing): "true iff x is NaN and its most-significant mantissa bit is 0".\<close>

definition is_signalling_nan :: "f64 \<Rightarrow> bool" where
  "is_signalling_nan x \<longleftrightarrow> is_nan x \<and> \<not> bit x 51"

text \<open>Modelled from the spec: \<open>is_infinity\<close> of \<open>utils/floatutils.h\<close> (header missing):
  the exponent field is all ones and the mantissa is zero.\<close>

definition is_infinity :: "f64 \<Rightarrow> bool" where
  "is_infinity x \<longleftrightarrow> exponent_d x = 0x7FF \<and> mantissa_d x = 0"

text \<open>Modelled from the spec: \<open>is_zero\<close> of \<open>utils/floatutils.h\<close> (header missing):
  plus or minus zero, exponent and mantissa both zero.\<close>

definition is_zero :: "f64 \<Rightarrow> bool" where
  "is_zero x \<longleftrightarrow> exponent_d x = 0 \<and> mantissa_d x = 0"

text \<open>Modelled from the spec: \<open>is_nan\<close> of \<open>utils/floatutils.h\<close> (header missing), on a
  float.\<close>

definition is_nan_f32 :: "f32 \<Rightarrow> bool" where
  "is_nan_f32 x \<longleftrightarrow> exponent_s x = 0xFF \<and> mantissa_s x \<noteq> 0"

text \<open>Modelled from the spec: \<open>make_quiet\<close> of \<open>utils/floatutils.h\<close> (header missing):
  "set the most-significant mantissa bit" of a float.\<close>

definition make_quiet :: "f32 \<Rightarrow> f32" where
  "make_quiet x = x OR 0x00400000"

text \<open>Modelled from the spec: \<open>make_nan<float>()\<close> of \<open>utils/floatutils.h\<close> (header missing),
  the "quiet NaN constant": exponent all ones, quiet bit set, everything else zero.\<close>

definition make_nan :: f32 where
  "make_nan = 0x7FC00000"

text \<open>Modelled from the spec: \<open>truncate_double_bits\<close> of \<open>utils/floatutils.h\<close> (header
  missing): "bit-level truncation: sign(1), exp(8, rebiased from 11-bit), mantissa high-23".
  The sign and the top exponent bit are bits 63 and 62 of the double; the low seven exponent
  bits and the high 23 mantissa bits are its bits 58 to 29. On the exponents of single
  precision this is the rebiasing, and it takes the all-ones exponent of a NaN to all ones.\<close>

definition truncate_double_bits :: "64 word \<Rightarrow> 32 word" where
  "truncate_double_bits v =
     ucast ((drop_bit 32 v AND 0xC0000000) OR (drop_bit 29 v AND 0x3FFFFFFF))"

text \<open>Modelled from the spec: \<open>extend_float_nan_bits\<close> of \<open>utils/floatutils.h\<close> (header
  missing): the "inverse of the above for sNaN payloads". Sign and top exponent bit go back to
  bits 63 and 62, the top exponent bit fills bits 61 to 59 (all ones for a NaN), the other
  thirty bits go back to bits 58 to 29, and the low 29 bits are zero.\<close>

definition extend_float_nan_bits :: "32 word \<Rightarrow> 64 word" where
  "extend_float_nan_bits v =
     push_bit 32 (ucast (v AND 0xC0000000)) OR
     (if bit v 30 then push_bit 59 7 else 0) OR
     push_bit 29 (ucast (v AND 0x3FFFFFFF))"

text \<open>Modelled from the spec: \<open>extend_float\<close> of \<open>utils/floatutils.h\<close> (header missing):
  "bit-exact IEEE widen. For NaNs, the payload is preserved by bit extension, not by numeric
  conversion." Widening a number is exact and raises no flag.\<close>

definition extend_float :: "f32 \<Rightarrow> f64" where
  "extend_float v = (if is_nan_f32 v then extend_float_nan_bits v else fst (f32_to_f64 v))"

text \<open>Modelled from the spec: \<open>truncate_double\<close> of \<open>utils/floatutils.h\<close> (header missing).
  The specification describes it twice: as IEEE round-to-nearest-even (section 4.1) and as
  "a bit-truncation of mantissa, not a round" (section 4.6). The source decides: the comment at
  its call in \<open>mergeGeneric\<close> reads "the mantissa is truncated rather than rounded", and
  \<open>mergeGeneric\<close> and \<open>moveGeneric\<close> use \<open>static_cast<float>\<close> where they want rounding
  and this function (or \<open>truncate_double_bits\<close>) where a signalling NaN must keep its bits.
  So it is the bit-level truncation of the double's bit pattern.\<close>

definition truncate_double :: "f64 \<Rightarrow> f32" where
  "truncate_double v = truncate_double_bits v"

section \<open>Registers and thread state\<close>

text \<open>A paired register. Lane 0 is a double and lane 1 a float, both kept as bit patterns, so
  that the raw views \<open>idw\<close> and \<open>iw_paired1\<close> of the source are the lanes themselves.\<close>

record fpr_t =
  paired0 :: f64
  paired1 :: f32

abbreviation idw :: "fpr_t \<Rightarrow> 64 word" where
  "idw r \<equiv> paired0 r"

abbreviation iw_paired1 :: "fpr_t \<Rightarrow> 32 word" where
  "iw_paired1 r \<equiv> paired1 r"

text \<open>The class and sign of a result, the contents of the five-bit field FPRF.\<close>

datatype fprf_t =
  FPRF_QNaN | FPRF_NegInfinity | FPRF_NegNormal | FPRF_NegDenormal | FPRF_NegZero
  | FPRF_PosZero | FPRF_PosDenormal | FPRF_PosNormal | FPRF_PosInfinity

text \<open>The FPSCR, one field for each named bit field of the source's union (section 3 of the
  specification, and the invalid-operation bits its VX summary names).\<close>

record fpscr_t =
  vxsnan :: bool
  vxisi :: bool
  vximz :: bool
  vxidi :: bool
  vxzdz :: bool
  vxsqrt :: bool
  vxvc :: bool
  vxsoft :: bool
  vxcvi :: bool
  zx :: bool
  ox :: bool
  ux :: bool
  xx :: bool
  ve :: bool
  ze :: bool
  oe :: bool
  ue :: bool
  xe :: bool
  fprf :: fprf_t
  fx :: bool
  fex :: bool
  vx :: bool

record Instruction =
  frA :: "5 word"
  frB :: "5 word"
  frC :: "5 word"
  frD :: "5 word"
  rc :: bool

text \<open>The source is compiled without \<open>#pragma STDC FENV_ACCESS ON\<close>, and nothing else
  (no \<open>volatile\<close>, no barrier) orders a floating-point operation with respect to the calls
  of \<open>fetestexcept\<close> and \<open>feclearexcept\<close> around it. In \<open>psSumGeneric\<close> the result
  \<open>ps0\<close> of \<open>static_cast<float>\<close> is first used after the two \<open>feclearexcept\<close> calls,
  so the host build may perform the conversion, and raise its flags, where the text has it,
  before the two tests, or after the two clears.\<close>

datatype conv_order = ConvAsWritten | ConvBeforeTest | ConvAfterClear

text \<open>The thread state the executors touch: the register file, the FPSCR and field 1 of the
  condition register (FX, FEX, VX, OX), together with the host's side: its floating-point
  environment, which the source reaches through \<open><cfenv>\<close>, and the place the host build
  gave the conversion of \<open>psSumGeneric\<close>.\<close>

record ThreadState =
  fpr :: "5 word \<Rightarrow> fpr_t"
  fpscr :: fpscr_t
  cr1 :: "bool \<times> bool \<times> bool \<times> bool"
  fenv :: fenv_t
  sum_conv :: conv_order

definition raise_fenv :: "fenv_t \<Rightarrow> ThreadState \<Rightarrow> ThreadState" where
  "raise_fenv fl s = s\<lparr>fenv := fe_or (fenv s) fl\<rparr>"

section \<open>The FPSCR update engine\<close>

definition fp_classify :: "format \<Rightarrow> nat \<Rightarrow> fprf_t" where
  "fp_classify f x =
     (if fp_nan f x then FPRF_QNaN
      else if fp_inf f x then (if fp_sign f x then FPRF_NegInfinity else FPRF_PosInfinity)
      else if fp_zero f x then (if fp_sign f x then FPRF_NegZero else FPRF_PosZero)
      else if fp_exp f x = 0 then (if fp_sign f x then FPRF_NegDenormal else FPRF_PosDenormal)
      else (if fp_sign f x then FPRF_NegNormal else FPRF_PosNormal))"

text \<open>Modelled from the spec: \<open>updateFPRF\<close> of the interpreter's float unit (its source file
  is missing): "encode class/sign of the result f64 into the 5-bit FPRF (qnan, plus or minus
  infinity, normal, denormal, zero)".\<close>

definition updateFPRF :: "ThreadState \<Rightarrow> f64 \<Rightarrow> ThreadState" where
  "updateFPRF s v = s\<lparr>fpscr := (fpscr s)\<lparr>fprf := fp_classify binary64 (unat v)\<rparr>\<rparr>"

text \<open>Modelled from the spec: \<open>updateFPRF\<close> as \<open>ps_res\<close> and \<open>ps_rsqrte\<close> call it, on a
  float (source file missing).\<close>

definition updateFPRF_f32 :: "ThreadState \<Rightarrow> f32 \<Rightarrow> ThreadState" where
  "updateFPRF_f32 s v = s\<lparr>fpscr := (fpscr s)\<lparr>fprf := fp_classify binary32 (unat v)\<rparr>\<rparr>"

text \<open>The sticky exception bits of an FPSCR value, for the summary FX.\<close>

definition sticky_bits :: "fpscr_t \<Rightarrow> bool list" where
  "sticky_bits r = [vxsnan r, vxisi r, vximz r, vxidi r, vxzdz r, vxsqrt r, vxvc r, vxsoft r,
                    vxcvi r, zx r, ox r, ux r, xx r]"

text \<open>Modelled from the spec: \<open>updateFPSCR\<close> of the interpreter's float unit (its source file
  is missing), section 4.9: "read host IEEE flags (invalid, div-by-zero, overflow, underflow,
  inexact); accumulate into FPSCR's sticky fields; compute derived fields": VX is the
  disjunction of the invalid-operation bits, FEX the disjunction of the enabled exceptions, FX
  says that a sticky bit is set that was not set in the old value. The host's flags are read
  and left as they are: section 4.9 has them cleared "before executing", which no executor at
  hand does, so that is the caller's part, and the properties below hold for any host flags
  on entry.\<close>

definition updateFPSCR :: "ThreadState \<Rightarrow> fpscr_t \<Rightarrow> ThreadState" where
  "updateFPSCR s old =
     (let r0 = fpscr s;
          r1 = r0\<lparr>zx := zx r0 \<or> FE_DIVBYZERO (fenv s),
                  ox := ox r0 \<or> FE_OVERFLOW (fenv s),
                  ux := ux r0 \<or> FE_UNDERFLOW (fenv s),
                  xx := xx r0 \<or> FE_INEXACT (fenv s)\<rparr>;
          r2 = r1\<lparr>vx := vxsnan r1 \<or> vxisi r1 \<or> vximz r1 \<or> vxzdz r1 \<or> vxidi r1 \<or> vxvc r1
                         \<or> vximz r1 \<or> vxsoft r1 \<or> vxsqrt r1 \<or> vxcvi r1\<rparr>;
          r3 = r2\<lparr>fex := (vx r2 \<and> ve r2) \<or> (ox r2 \<and> oe r2) \<or> (ux r2 \<and> ue r2)
                          \<or> (zx r2 \<and> ze r2) \<or> (xx r2 \<and> xe r2)\<rparr>;
          r4 = r3\<lparr>fx := list_ex (\<lambda>(n, b). n \<and> \<not> b) (zip (sticky_bits r3) (sticky_bits old))\<rparr>
      in s\<lparr>fpscr := r4\<rparr>)"

text \<open>Modelled from the spec: \<open>updateFloatConditionRegister\<close> of the interpreter's float unit
  (its source file is missing): the record bit mirrors the summary bits FX, FEX, VX and OX of
  the FPSCR into field 1 of the condition register.\<close>

definition updateFloatConditionRegister :: "ThreadState \<Rightarrow> ThreadState" where
  "updateFloatConditionRegister s =
     s\<lparr>cr1 := (fx (fpscr s), fex (fpscr s), vx (fpscr s), ox (fpscr s))\<rparr>"

definition record_rc :: "Instruction \<Rightarrow> ThreadState \<Rightarrow> ThreadState" where
  "record_rc instr s = (if rc instr then updateFloatConditionRegister s else s)"


section \<open>The paired-single executors\<close>

subsection \<open>Register move and sign bit manipulation\<close>

datatype MoveMode = MoveDirect | MoveNegate | MoveAbsolute | MoveNegAbsolute

definition moveGeneric :: "MoveMode \<Rightarrow> ThreadState \<Rightarrow> Instruction \<Rightarrow> ThreadState" where
  "moveGeneric mode s instr =
     (let ps0_nan = is_signalling_nan (paired0 (fpr s (frB instr)));
          cv = f64_to_f32 (paired0 (fpr s (frB instr)));
          b0 = (if \<not> ps0_nan then fst cv else truncate_double_bits (idw (fpr s (frB instr))));
          s1 = (if \<not> ps0_nan then raise_fenv (snd cv) s else s);
          b1 = iw_paired1 (fpr s (frB instr));
          d0 = (case mode of
                  MoveDirect \<Rightarrow> b0
                | MoveNegate \<Rightarrow> b0 XOR 0x80000000
                | MoveAbsolute \<Rightarrow> b0 AND NOT 0x80000000
                | MoveNegAbsolute \<Rightarrow> b0 OR 0x80000000);
          d1 = (case mode of
                  MoveDirect \<Rightarrow> b1
                | MoveNegate \<Rightarrow> b1 XOR 0x80000000
                | MoveAbsolute \<Rightarrow> b1 AND NOT 0x80000000
                | MoveNegAbsolute \<Rightarrow> b1 OR 0x80000000);
          wd = f32_to_f64 d0;
          s2 = (if \<not> ps0_nan
                then (raise_fenv (snd wd) s1)
                       \<lparr>fpr := (fpr s1)(frD instr := (fpr s1 (frD instr))\<lparr>paired0 := fst wd\<rparr>)\<rparr>
                else s1\<lparr>fpr := (fpr s1)(frD instr :=
                                  (fpr s1 (frD instr))\<lparr>paired0 := extend_float_nan_bits d0\<rparr>)\<rparr>);
          s3 = s2\<lparr>fpr := (fpr s2)(frD instr := (fpr s2 (frD instr))\<lparr>paired1 := d1\<rparr>)\<rparr>
      in record_rc instr s3)"

definition ps_mr :: "ThreadState \<Rightarrow> Instruction \<Rightarrow> ThreadState" where
  "ps_mr s instr = moveGeneric MoveDirect s instr"

definition ps_neg :: "ThreadState \<Rightarrow> Instruction \<Rightarrow> ThreadState" where
  "ps_neg s instr = moveGeneric MoveNegate s instr"

definition ps_abs :: "ThreadState \<Rightarrow> Instruction \<Rightarrow> ThreadState" where
  "ps_abs s instr = moveGeneric MoveAbsolute s instr"

definition ps_nabs :: "ThreadState \<Rightarrow> Instruction \<Rightarrow> ThreadState" where
  "ps_nabs s instr = moveGeneric MoveNegAbsolute s instr"

subsection \<open>Paired-single arithmetic\<close>

datatype PSArithOperator = PSAdd | PSSub | PSMul | PSDiv

text \<open>The exception conditions one slot computes (the locals \<open>vxsnan\<close>, \<open>vxisi\<close>, \<open>vximz\<close>,
  \<open>vxidi\<close>, \<open>vxzdz\<close>, \<open>vxsqrt\<close> and \<open>zx\<close> of the source).\<close>

record slot_exc =
  e_vxsnan :: bool
  e_vxisi :: bool
  e_vximz :: bool
  e_vxidi :: bool
  e_vxzdz :: bool
  e_vxsqrt :: bool
  e_zx :: bool

definition psArith_exc :: "PSArithOperator \<Rightarrow> f64 \<Rightarrow> f64 \<Rightarrow> slot_exc" where
  "psArith_exc op a b =
     (let vxsnan' = (is_signalling_nan a \<or> is_signalling_nan b)
      in case op of
           PSAdd \<Rightarrow>
             \<lparr>e_vxsnan = vxsnan',
              e_vxisi = (is_infinity a \<and> is_infinity b \<and> signbit_d a \<noteq> signbit_d b),
              e_vximz = False, e_vxidi = False, e_vxzdz = False, e_vxsqrt = False, e_zx = False\<rparr>
         | PSSub \<Rightarrow>
             \<lparr>e_vxsnan = vxsnan',
              e_vxisi = (is_infinity a \<and> is_infinity b \<and> signbit_d a = signbit_d b),
              e_vximz = False, e_vxidi = False, e_vxzdz = False, e_vxsqrt = False, e_zx = False\<rparr>
         | PSMul \<Rightarrow>
             \<lparr>e_vxsnan = vxsnan',
              e_vxisi = False,
              e_vximz = ((is_infinity a \<and> is_zero b) \<or> (is_zero a \<and> is_infinity b)),
              e_vxidi = False, e_vxzdz = False, e_vxsqrt = False, e_zx = False\<rparr>
         | PSDiv \<Rightarrow>
             \<lparr>e_vxsnan = vxsnan',
              e_vxisi = False,
              e_vximz = False,
              e_vxidi = (is_infinity a \<and> is_infinity b),
              e_vxzdz = (is_zero a \<and> is_zero b),
              e_vxsqrt = False,
              e_zx = (\<not> ((is_zero a \<and> is_zero b) \<or> vxsnan') \<and> is_zero b)\<rparr>)"

text \<open>The statements \<open>state->fpscr.vxsnan |= vxsnan\<close> and so on.\<close>

definition raise_exc :: "slot_exc \<Rightarrow> fpscr_t \<Rightarrow> fpscr_t" where
  "raise_exc x r =
     r\<lparr>vxsnan := vxsnan r \<or> e_vxsnan x,
       vxisi := vxisi r \<or> e_vxisi x,
       vximz := vximz r \<or> e_vximz x,
       vxidi := vxidi r \<or> e_vxidi x,
       vxzdz := vxzdz r \<or> e_vxzdz x,
       vxsqrt := vxsqrt r \<or> e_vxsqrt x,
       zx := zx r \<or> e_zx x\<rparr>"

text \<open>The numeric branch: the operation on the doubles, narrowed by \<open>static_cast<float>\<close>.\<close>

definition narrow :: "f64 \<times> fenv_t \<Rightarrow> f32 \<times> fenv_t" where
  "narrow r = (fst (f64_to_f32 (fst r)), fe_or (snd r) (snd (f64_to_f32 (fst r))))"

definition psArith_compute :: "PSArithOperator \<Rightarrow> f64 \<Rightarrow> f64 \<Rightarrow> f32 \<times> fenv_t" where
  "psArith_compute op a b =
     (case op of
        PSAdd \<Rightarrow> narrow (f64_add a b)
      | PSSub \<Rightarrow> narrow (f64_sub a b)
      | PSMul \<Rightarrow> narrow (f64_mul a b)
      | PSDiv \<Rightarrow> narrow (f64_div a b))"

text \<open>The operands of a slot: lane \<open>slotA\<close> of \<open>frA\<close>, and lane \<open>slotB\<close> of \<open>frB\<close>, or
  of \<open>frC\<close> for a multiplication.\<close>

definition psArith_a :: "nat \<Rightarrow> ThreadState \<Rightarrow> Instruction \<Rightarrow> f64" where
  "psArith_a slotA s instr =
     (if slotA = 0 then paired0 (fpr s (frA instr))
      else extend_float (paired1 (fpr s (frA instr))))"

definition psArith_b :: "PSArithOperator \<Rightarrow> nat \<Rightarrow> ThreadState \<Rightarrow> Instruction \<Rightarrow> f64" where
  "psArith_b op slotB s instr =
     (if slotB = 0 then paired0 (fpr s (if op = PSMul then frC instr else frB instr))
      else extend_float (paired1 (fpr s (if op = PSMul then frC instr else frB instr))))"

text \<open>\<open>psArithSingle\<close> returns the state and the result, \<open>None\<close> where the source returns
  \<open>false\<close> (the write is aborted by an enabled exception).\<close>

definition psArithSingle ::
  "PSArithOperator \<Rightarrow> nat \<Rightarrow> nat \<Rightarrow> ThreadState \<Rightarrow> Instruction \<Rightarrow> ThreadState \<times> f32 option" where
  "psArithSingle op slotA slotB s instr =
     (let a = psArith_a slotA s instr;
          b = psArith_b op slotB s instr;
          x = psArith_exc op a b;
          s1 = s\<lparr>fpscr := raise_exc x (fpscr s)\<rparr>;
          vxEnabled = ((e_vxsnan x \<or> e_vxisi x \<or> e_vximz x \<or> e_vxidi x \<or> e_vxzdz x)
                       \<and> ve (fpscr s1));
          zxEnabled = (e_zx x \<and> ze (fpscr s1))
      in if vxEnabled \<or> zxEnabled then (s1, None)
         else if is_nan a then (s1, Some (make_quiet (truncate_double a)))
         else if is_nan b then (s1, Some (make_quiet (truncate_double b)))
         else if e_vxisi x \<or> e_vximz x \<or> e_vxidi x \<or> e_vxzdz x then (s1, Some make_nan)
         else (raise_fenv (snd (psArith_compute op a b)) s1,
               Some (fst (psArith_compute op a b))))"

definition psArithGeneric ::
  "PSArithOperator \<Rightarrow> nat \<Rightarrow> nat \<Rightarrow> ThreadState \<Rightarrow> Instruction \<Rightarrow> ThreadState" where
  "psArithGeneric op slotB0 slotB1 s instr =
     (let oldFPSCR = fpscr s;
          (s1, wrote0) = psArithSingle op 0 slotB0 s instr;
          (s2, wrote1) = psArithSingle op 1 slotB1 s1 instr;
          s3 = (case (wrote0, wrote1) of
                  (Some d0, Some d1) \<Rightarrow>
                    s2\<lparr>fpr := (fpr s2)(frD instr :=
                          (fpr s2 (frD instr))\<lparr>paired0 := extend_float d0, paired1 := d1\<rparr>)\<rparr>
                | _ \<Rightarrow> s2);
          s4 = (case wrote0 of Some d0 \<Rightarrow> updateFPRF s3 (extend_float d0) | None \<Rightarrow> s3);
          s5 = updateFPSCR s4 oldFPSCR
      in record_rc instr s5)"

definition ps_add :: "ThreadState \<Rightarrow> Instruction \<Rightarrow> ThreadState" where
  "ps_add s instr = psArithGeneric PSAdd 0 1 s instr"

definition ps_sub :: "ThreadState \<Rightarrow> Instruction \<Rightarrow> ThreadState" where
  "ps_sub s instr = psArithGeneric PSSub 0 1 s instr"

definition ps_mul :: "ThreadState \<Rightarrow> Instruction \<Rightarrow> ThreadState" where
  "ps_mul s instr = psArithGeneric PSMul 0 1 s instr"

definition ps_muls0 :: "ThreadState \<Rightarrow> Instruction \<Rightarrow> ThreadState" where
  "ps_muls0 s instr = psArithGeneric PSMul 0 0 s instr"

definition ps_muls1 :: "ThreadState \<Rightarrow> Instruction \<Rightarrow> ThreadState" where
  "ps_muls1 s instr = psArithGeneric PSMul 1 1 s instr"

definition ps_div :: "ThreadState \<Rightarrow> Instruction \<Rightarrow> ThreadState" where
  "ps_div s instr = psArithGeneric PSDiv 0 1 s instr"

subsection \<open>Sum\<close>

text \<open>The conversion of \<open>frC\<close>'s lane 0 for the slot \<open>ps_sum1\<close> does not sum. As
  written, the flags FE_INEXACT and FE_OVERFLOW are tested before \<open>static_cast<float>\<close> and
  cleared after it if they were clear. The flags of the conversion are raised at the place
  \<open>sum_conv\<close> gives: between the tests and the clears, before the tests, or after the
  clears.\<close>

definition clear_unless :: "bool \<Rightarrow> bool \<Rightarrow> ThreadState \<Rightarrow> ThreadState" where
  "clear_unless inexact overflow s =
     (let s1 = (if \<not> inexact then s\<lparr>fenv := (fenv s)\<lparr>FE_INEXACT := False\<rparr>\<rparr> else s);
          s2 = (if \<not> overflow then s1\<lparr>fenv := (fenv s1)\<lparr>FE_OVERFLOW := False\<rparr>\<rparr> else s1)
      in s2)"

definition psSum_ps0 :: "ThreadState \<Rightarrow> f64 \<Rightarrow> ThreadState \<times> f32" where
  "psSum_ps0 s c0 =
     (if is_nan c0 then (s, truncate_double c0)
      else
        let cv = f64_to_f32 c0;
            s0 = (if sum_conv s = ConvBeforeTest then raise_fenv (snd cv) s else s);
            inexact = FE_INEXACT (fenv s0);
            overflow = FE_OVERFLOW (fenv s0);
            s1 = (if sum_conv s = ConvAsWritten then raise_fenv (snd cv) s0 else s0);
            s2 = clear_unless inexact overflow s1;
            s3 = (if sum_conv s = ConvAfterClear then raise_fenv (snd cv) s2 else s2)
        in (s3, fst cv))"

text \<open>The body of \<open>psSumGeneric\<close> up to the call of \<open>updateFPSCR\<close>.\<close>

definition psSum_body :: "nat \<Rightarrow> ThreadState \<Rightarrow> Instruction \<Rightarrow> ThreadState" where
  "psSum_body slot s instr =
     (case psArithSingle PSAdd 0 1 s instr of
        (s1, None) \<Rightarrow> s1
      | (s1, Some d) \<Rightarrow>
          let s2 = updateFPRF s1 (extend_float d)
          in if slot = 0 then
               s2\<lparr>fpr := (fpr s2)(frD instr :=
                     (fpr s2 (frD instr))\<lparr>paired0 := extend_float d,
                                           paired1 := iw_paired1 (fpr s2 (frC instr))\<rparr>)\<rparr>
             else
               let (s3, ps0) = psSum_ps0 s2 (paired0 (fpr s2 (frC instr)))
               in s3\<lparr>fpr := (fpr s3)(frD instr :=
                        (fpr s3 (frD instr))\<lparr>paired0 := extend_float ps0, paired1 := d\<rparr>)\<rparr>)"

definition psSumGeneric :: "nat \<Rightarrow> ThreadState \<Rightarrow> Instruction \<Rightarrow> ThreadState" where
  "psSumGeneric slot s instr =
     (let oldFPSCR = fpscr s;
          s1 = psSum_body slot s instr;
          s2 = updateFPSCR s1 oldFPSCR
      in record_rc instr s2)"

definition ps_sum0 :: "ThreadState \<Rightarrow> Instruction \<Rightarrow> ThreadState" where
  "ps_sum0 s instr = psSumGeneric 0 s instr"

definition ps_sum1 :: "ThreadState \<Rightarrow> Instruction \<Rightarrow> ThreadState" where
  "ps_sum1 s instr = psSumGeneric 1 s instr"


subsection \<open>Fused multiply-add\<close>

definition FMASubtract :: nat where
  "FMASubtract = 1"

definition FMANegate :: nat where
  "FMANegate = 2"

definition fma_a :: "nat \<Rightarrow> ThreadState \<Rightarrow> Instruction \<Rightarrow> f64" where
  "fma_a slotAB s instr =
     (if slotAB = 0 then paired0 (fpr s (frA instr))
      else extend_float (paired1 (fpr s (frA instr))))"

definition fma_b :: "nat \<Rightarrow> ThreadState \<Rightarrow> Instruction \<Rightarrow> f64" where
  "fma_b slotAB s instr =
     (if slotAB = 0 then paired0 (fpr s (frB instr))
      else extend_float (paired1 (fpr s (frB instr))))"

definition fma_c :: "nat \<Rightarrow> ThreadState \<Rightarrow> Instruction \<Rightarrow> f64" where
  "fma_c slotC s instr =
     (if slotC = 0 then paired0 (fpr s (frC instr))
      else extend_float (paired1 (fpr s (frC instr))))"

definition fma_addend :: "nat \<Rightarrow> f64 \<Rightarrow> f64" where
  "fma_addend flags b = (if flags AND FMASubtract \<noteq> 0 then f64_neg b else b)"

definition fma_exc :: "nat \<Rightarrow> f64 \<Rightarrow> f64 \<Rightarrow> f64 \<Rightarrow> slot_exc" where
  "fma_exc flags a b c =
     \<lparr>e_vxsnan = (is_signalling_nan a \<or> is_signalling_nan b \<or> is_signalling_nan c),
      e_vxisi = ((is_infinity a \<or> is_infinity c) \<and> is_infinity b
                 \<and> (signbit_d a \<noteq> signbit_d c) \<noteq> signbit_d (fma_addend flags b)),
      e_vximz = ((is_infinity a \<and> is_zero c) \<or> (is_zero a \<and> is_infinity c)),
      e_vxidi = False, e_vxzdz = False, e_vxsqrt = False, e_zx = False\<rparr>"

text \<open>The numeric branch: \<open>static_cast<float>(std::fma(a, c, addend))\<close>, negated if
  \<open>FMANegate\<close> is among the flags.\<close>

definition fma_compute :: "nat \<Rightarrow> f64 \<Rightarrow> f64 \<Rightarrow> f64 \<Rightarrow> f32 \<times> fenv_t" where
  "fma_compute flags a b c =
     (let r = narrow (f64_fma a c (fma_addend flags b))
      in if flags AND FMANegate \<noteq> 0 then (f32_neg (fst r), snd r) else r)"

definition fmaSingle ::
  "nat \<Rightarrow> nat \<Rightarrow> nat \<Rightarrow> ThreadState \<Rightarrow> Instruction \<Rightarrow> ThreadState \<times> f32 option" where
  "fmaSingle flags slotAB slotC s instr =
     (let a = fma_a slotAB s instr;
          b = fma_b slotAB s instr;
          c = fma_c slotC s instr;
          x = fma_exc flags a b c;
          s1 = s\<lparr>fpscr := (fpscr s)\<lparr>vxsnan := vxsnan (fpscr s) \<or> e_vxsnan x,
                                     vxisi := vxisi (fpscr s) \<or> e_vxisi x,
                                     vximz := vximz (fpscr s) \<or> e_vximz x\<rparr>\<rparr>
      in if (e_vxsnan x \<or> e_vxisi x \<or> e_vximz x) \<and> ve (fpscr s1) then (s1, None)
         else if is_nan a then (s1, Some (make_quiet (truncate_double a)))
         else if is_nan b then (s1, Some (make_quiet (truncate_double b)))
         else if is_nan c then (s1, Some (make_quiet (truncate_double c)))
         else if e_vxisi x \<or> e_vximz x then (s1, Some make_nan)
         else (raise_fenv (snd (fma_compute flags a b c)) s1,
               Some (fst (fma_compute flags a b c))))"

definition fmaGeneric ::
  "nat \<Rightarrow> nat \<Rightarrow> nat \<Rightarrow> ThreadState \<Rightarrow> Instruction \<Rightarrow> ThreadState" where
  "fmaGeneric flags slotC0 slotC1 s instr =
     (let oldFPSCR = fpscr s;
          (s1, wrote0) = fmaSingle flags 0 slotC0 s instr;
          (s2, wrote1) = fmaSingle flags 1 slotC1 s1 instr;
          s3 = (case (wrote0, wrote1) of
                  (Some d0, Some d1) \<Rightarrow>
                    s2\<lparr>fpr := (fpr s2)(frD instr :=
                          (fpr s2 (frD instr))\<lparr>paired0 := extend_float d0, paired1 := d1\<rparr>)\<rparr>
                | _ \<Rightarrow> s2);
          s4 = (case wrote0 of Some d0 \<Rightarrow> updateFPRF s3 (extend_float d0) | None \<Rightarrow> s3);
          s5 = updateFPSCR s4 oldFPSCR
      in record_rc instr s5)"

definition ps_madd :: "ThreadState \<Rightarrow> Instruction \<Rightarrow> ThreadState" where
  "ps_madd s instr = fmaGeneric 0 0 1 s instr"

definition ps_madds0 :: "ThreadState \<Rightarrow> Instruction \<Rightarrow> ThreadState" where
  "ps_madds0 s instr = fmaGeneric 0 0 0 s instr"

definition ps_madds1 :: "ThreadState \<Rightarrow> Instruction \<Rightarrow> ThreadState" where
  "ps_madds1 s instr = fmaGeneric 0 1 1 s instr"

definition ps_msub :: "ThreadState \<Rightarrow> Instruction \<Rightarrow> ThreadState" where
  "ps_msub s instr = fmaGeneric FMASubtract 0 1 s instr"

definition ps_nmadd :: "ThreadState \<Rightarrow> Instruction \<Rightarrow> ThreadState" where
  "ps_nmadd s instr = fmaGeneric FMANegate 0 1 s instr"

definition ps_nmsub :: "ThreadState \<Rightarrow> Instruction \<Rightarrow> ThreadState" where
  "ps_nmsub s instr = fmaGeneric (FMANegate OR FMASubtract) 0 1 s instr"

subsection \<open>Merge\<close>

definition MergeValue0 :: nat where
  "MergeValue0 = 1"

definition MergeValue1 :: nat where
  "MergeValue1 = 2"

definition mergeGeneric :: "nat \<Rightarrow> ThreadState \<Rightarrow> Instruction \<Rightarrow> ThreadState" where
  "mergeGeneric flags s instr =
     (let a0 = paired0 (fpr s (frA instr));
          (s1, d0) =
            (if flags AND MergeValue0 \<noteq> 0 then (s, paired1 (fpr s (frA instr)))
             else if \<not> is_signalling_nan a0
               then (raise_fenv (snd (f64_to_f32 a0)) s, fst (f64_to_f32 a0))
             else (s, truncate_double a0));
          d1 = (if flags AND MergeValue1 \<noteq> 0 then paired1 (fpr s1 (frB instr))
                else truncate_double (paired0 (fpr s1 (frB instr))));
          s2 = s1\<lparr>fpr := (fpr s1)(frD instr :=
                     (fpr s1 (frD instr))\<lparr>paired0 := extend_float d0, paired1 := d1\<rparr>)\<rparr>
      in record_rc instr s2)"

definition ps_merge00 :: "ThreadState \<Rightarrow> Instruction \<Rightarrow> ThreadState" where
  "ps_merge00 s instr = mergeGeneric 0 s instr"

definition ps_merge01 :: "ThreadState \<Rightarrow> Instruction \<Rightarrow> ThreadState" where
  "ps_merge01 s instr = mergeGeneric MergeValue1 s instr"

definition ps_merge11 :: "ThreadState \<Rightarrow> Instruction \<Rightarrow> ThreadState" where
  "ps_merge11 s instr = mergeGeneric (MergeValue0 OR MergeValue1) s instr"

definition ps_merge10 :: "ThreadState \<Rightarrow> Instruction \<Rightarrow> ThreadState" where
  "ps_merge10 s instr = mergeGeneric MergeValue0 s instr"

subsection \<open>Reciprocal and reciprocal square root\<close>

text \<open>\<open>1.0f / static_cast<float>(b)\<close> and \<open>1.0f / std::sqrt(static_cast<float>(b))\<close>.\<close>

definition res_compute :: "f64 \<Rightarrow> f32 \<times> fenv_t" where
  "res_compute b =
     (let n = f64_to_f32 b; q = f32_div f32_one (fst n)
      in (fst q, fe_or (snd n) (snd q)))"

definition rsqrte_compute :: "f64 \<Rightarrow> f32 \<times> fenv_t" where
  "rsqrte_compute b =
     (let n = f64_to_f32 b; r = f32_sqrt (fst n); q = f32_div f32_one (fst r)
      in (fst q, fe_or (snd n) (fe_or (snd r) (snd q))))"

text \<open>One lane of \<open>ps_res\<close> and \<open>ps_rsqrte\<close> after the exception test: the quieted NaN
  operand, the quiet NaN constant, or the computed estimate.\<close>

definition est_lane ::
  "(f64 \<Rightarrow> f32 \<times> fenv_t) \<Rightarrow> bool \<Rightarrow> f64 \<Rightarrow> ThreadState \<Rightarrow> ThreadState \<times> f32" where
  "est_lane compute invalid b s =
     (if is_nan b then (s, make_quiet (truncate_double b))
      else if invalid then (s, make_nan)
      else (raise_fenv (snd (compute b)) s, fst (compute b)))"

text \<open>The statement \<open>if (gate) { write = false; } else { d = ...; }\<close> of a lane: the lane's
  value is \<open>None\<close> where the source clears \<open>write\<close> and leaves \<open>d\<close> unset. Lane 0
  also sets FPRF from its value (\<open>set_fprf\<close> is true).\<close>

definition est_slot ::
  "(f64 \<Rightarrow> f32 \<times> fenv_t) \<Rightarrow> bool \<Rightarrow> bool \<Rightarrow> bool \<Rightarrow> f64 \<Rightarrow> ThreadState
     \<Rightarrow> ThreadState \<times> f32 option" where
  "est_slot compute gate invalid set_fprf b s =
     (if gate then (s, None)
      else let (t, d) = est_lane compute invalid b s
           in (if set_fprf then updateFPRF_f32 t d else t, Some d))"

definition ps_res :: "ThreadState \<Rightarrow> Instruction \<Rightarrow> ThreadState" where
  "ps_res s instr =
     (let b0 = paired0 (fpr s (frB instr));
          b1 = extend_float (paired1 (fpr s (frB instr)));
          vxsnan0 = is_signalling_nan b0;
          vxsnan1 = is_signalling_nan b1;
          zx0 = is_zero b0;
          zx1 = is_zero b1;
          oldFPSCR = fpscr s;
          s1 = s\<lparr>fpscr := (fpscr s)\<lparr>vxsnan := vxsnan (fpscr s) \<or> (vxsnan0 \<or> vxsnan1),
                                     zx := zx (fpscr s) \<or> (zx0 \<or> zx1)\<rparr>\<rparr>;
          (s2, d0) = est_slot res_compute
                       ((vxsnan0 \<and> ve (fpscr s1)) \<or> (zx0 \<and> ze (fpscr s1)))
                       vxsnan0 True b0 s1;
          (s3, d1) = est_slot res_compute
                       ((vxsnan1 \<and> ve (fpscr s2)) \<or> (zx1 \<and> ze (fpscr s2)))
                       vxsnan1 False b1 s2;
          s4 = (case (d0, d1) of
                  (Some v0, Some v1) \<Rightarrow>
                    s3\<lparr>fpr := (fpr s3)(frD instr :=
                          (fpr s3 (frD instr))\<lparr>paired0 := extend_float v0, paired1 := v1\<rparr>)\<rparr>
                | _ \<Rightarrow> s3);
          s5 = updateFPSCR s4 oldFPSCR
      in record_rc instr s5)"

definition ps_rsqrte :: "ThreadState \<Rightarrow> Instruction \<Rightarrow> ThreadState" where
  "ps_rsqrte s instr =
     (let b0 = paired0 (fpr s (frB instr));
          b1 = extend_float (paired1 (fpr s (frB instr)));
          vxsnan0 = is_signalling_nan b0;
          vxsnan1 = is_signalling_nan b1;
          vxsqrt0 = (\<not> vxsnan0 \<and> signbit_d b0 \<and> \<not> is_zero b0);
          vxsqrt1 = (\<not> vxsnan1 \<and> signbit_d b1 \<and> \<not> is_zero b1);
          zx0 = is_zero b0;
          zx1 = is_zero b1;
          oldFPSCR = fpscr s;
          s1 = s\<lparr>fpscr := (fpscr s)\<lparr>vxsnan := vxsnan (fpscr s) \<or> (vxsnan0 \<or> vxsnan1),
                                     vxsqrt := vxsqrt (fpscr s) \<or> (vxsqrt0 \<or> vxsqrt1),
                                     zx := zx (fpscr s) \<or> (zx0 \<or> zx1)\<rparr>\<rparr>;
          (s2, d0) = est_slot rsqrte_compute
                       (((vxsnan0 \<or> vxsqrt0) \<and> ve (fpscr s1)) \<or> (zx0 \<and> ze (fpscr s1)))
                       (vxsnan0 \<or> vxsqrt0) True b0 s1;
          (s3, d1) = est_slot rsqrte_compute
                       (((vxsnan1 \<or> vxsqrt1) \<and> ve (fpscr s2)) \<or> (zx1 \<and> ze (fpscr s2)))
                       (vxsnan1 \<or> vxsqrt1) False b1 s2;
          s4 = (case (d0, d1) of
                  (Some v0, Some v1) \<Rightarrow>
                    s3\<lparr>fpr := (fpr s3)(frD instr :=
                          (fpr s3 (frD instr))\<lparr>paired0 := extend_float v0, paired1 := v1\<rparr>)\<rparr>
                | _ \<Rightarrow> s3);
          s5 = updateFPSCR s4 oldFPSCR
      in record_rc instr s5)"

subsection \<open>Select\<close>

text \<open>The locals of \<open>ps_sel\<close> are floats: reading a lane 0 converts the double
  (\<open>static_cast<float>\<close>), and writing \<open>d0\<close> to lane 0 converts back.\<close>

definition ps_sel :: "ThreadState \<Rightarrow> Instruction \<Rightarrow> ThreadState" where
  "ps_sel s instr =
     (let a0 = f64_to_f32 (paired0 (fpr s (frA instr)));
          a1 = paired1 (fpr s (frA instr));
          b0 = f64_to_f32 (paired0 (fpr s (frB instr)));
          b1 = paired1 (fpr s (frB instr));
          c0 = f64_to_f32 (paired0 (fpr s (frC instr)));
          c1 = paired1 (fpr s (frC instr));
          s1 = raise_fenv (snd c0) (raise_fenv (snd b0) (raise_fenv (snd a0) s));
          d1 = (if fst (f32_ge_zero a1) then c1 else b1);
          s2 = raise_fenv (snd (f32_ge_zero a1)) s1;
          d0 = (if fst (f32_ge_zero (fst a0)) then fst c0 else fst b0);
          s3 = raise_fenv (snd (f32_ge_zero (fst a0))) s2;
          s4 = (raise_fenv (snd (f32_to_f64 d0)) s3)
                 \<lparr>fpr := (fpr s3)(frD instr := (fpr s3 (frD instr))\<lparr>paired0 := fst (f32_to_f64 d0)\<rparr>)\<rparr>;
          s5 = s4\<lparr>fpr := (fpr s4)(frD instr := (fpr s4 (frD instr))\<lparr>paired1 := d1\<rparr>)\<rparr>
      in record_rc instr s5)"

section \<open>The JIT's code for the scalar fused multiply-add\<close>

text \<open>The code \<open>fmaddGeneric\<close> and \<open>fmsubGeneric\<close> emit, run on the thread state: the
  host register of \<open>frD\<close> takes \<open>frA\<close>'s double (\<open>movq\<close>), is multiplied by \<open>frC\<close>'s
  (\<open>mulsd\<close>), and \<open>frB\<close>'s is added or subtracted (\<open>addsd\<close>, \<open>subsd\<close>); then the sign
  is flipped (\<open>pxor\<close>) and the value rounded to single precision and back (\<open>cvtsd2ss\<close>,
  \<open>cvtss2sd\<close>), as the template arguments say. The result is the double the code leaves in
  the low quadword of the register of \<open>frD\<close>, which is the new lane 0, together with the
  host flags the SSE operations raise; the code does not touch the FPSCR. With the record bit
  set nothing is emitted and the instruction falls back to the interpreter (\<open>None\<close>).\<close>

definition truncateToSingle :: "f64 \<times> fenv_t \<Rightarrow> f64 \<times> fenv_t" where
  "truncateToSingle r =
     (let tmp = f64_to_f32 (fst r); reg = f32_to_f64 (fst tmp)
      in (fst reg, fe_or (snd r) (fe_or (snd tmp) (snd reg))))"

definition negateXmm :: "f64 \<times> fenv_t \<Rightarrow> f64 \<times> fenv_t" where
  "negateXmm r = (fst r XOR 0x8000000000000000, snd r)"

definition fmaddGeneric ::
  "bool \<Rightarrow> bool \<Rightarrow> ThreadState \<Rightarrow> Instruction \<Rightarrow> (f64 \<times> fenv_t) option" where
  "fmaddGeneric ShouldTruncate ShouldNegate s instr =
     (if rc instr then None
      else
        let srcA = paired0 (fpr s (frA instr));
            tmpSrcB = paired0 (fpr s (frB instr));
            tmpSrcC = paired0 (fpr s (frC instr));
            m = f64_mul srcA tmpSrcC;
            r = f64_add (fst m) tmpSrcB;
            dst = (fst r, fe_or (snd m) (snd r));
            dst1 = (if ShouldNegate then negateXmm dst else dst);
            dst2 = (if ShouldTruncate then truncateToSingle dst1 else dst1)
        in Some dst2)"

definition fmsubGeneric ::
  "bool \<Rightarrow> bool \<Rightarrow> ThreadState \<Rightarrow> Instruction \<Rightarrow> (f64 \<times> fenv_t) option" where
  "fmsubGeneric ShouldTruncate ShouldNegate s instr =
     (if rc instr then None
      else
        let srcA = paired0 (fpr s (frA instr));
            tmpSrcB = paired0 (fpr s (frB instr));
            tmpSrcC = paired0 (fpr s (frC instr));
            m = f64_mul srcA tmpSrcC;
            r = f64_sub (fst m) tmpSrcB;
            dst = (fst r, fe_or (snd m) (snd r));
            dst1 = (if ShouldNegate then negateXmm dst else dst);
            dst2 = (if ShouldTruncate then truncateToSingle dst1 else dst1)
        in Some dst2)"

definition fmadd :: "ThreadState \<Rightarrow> Instruction \<Rightarrow> (f64 \<times> fenv_t) option" where
  "fmadd s instr = fmaddGeneric False False s instr"

definition fmadds :: "ThreadState \<Rightarrow> Instruction \<Rightarrow> (f64 \<times> fenv_t) option" where
  "fmadds s instr = fmaddGeneric True False s instr"

definition fmsub :: "ThreadState \<Rightarrow> Instruction \<Rightarrow> (f64 \<times> fenv_t) option" where
  "fmsub s instr = fmsubGeneric False False s instr"

definition fmsubs :: "ThreadState \<Rightarrow> Instruction \<Rightarrow> (f64 \<times> fenv_t) option" where
  "fmsubs s instr = fmsubGeneric True False s instr"

definition fnmadd :: "ThreadState \<Rightarrow> Instruction \<Rightarrow> (f64 \<times> fenv_t) option" where
  "fnmadd s instr = fmaddGeneric False True s instr"

definition fnmadds :: "ThreadState \<Rightarrow> Instruction \<Rightarrow> (f64 \<times> fenv_t) option" where
  "fnmadds s instr = fmaddGeneric True True s instr"

definition fnmsub :: "ThreadState \<Rightarrow> Instruction \<Rightarrow> (f64 \<times> fenv_t) option" where
  "fnmsub s instr = fmsubGeneric False True s instr"

definition fnmsubs :: "ThreadState \<Rightarrow> Instruction \<Rightarrow> (f64 \<times> fenv_t) option" where
  "fnmsubs s instr = fmsubGeneric True True s instr"


section \<open>Notions the properties are stated with\<close>

text \<open>The write gate of a slot (specification, sections 4.3 and 4.7): an invalid-operation
  condition of the slot with VE set, or its zero-divide condition with ZE set.\<close>

definition slot_gate :: "slot_exc \<Rightarrow> fpscr_t \<Rightarrow> bool" where
  "slot_gate x r \<longleftrightarrow>
     ((e_vxsnan x \<or> e_vxisi x \<or> e_vximz x \<or> e_vxidi x \<or> e_vxzdz x \<or> e_vxsqrt x) \<and> ve r)
     \<or> (e_zx x \<and> ze r)"

text \<open>The conditions of a slot are flagged in an FPSCR value; the sticky exception bits of
  an old value are kept in a new one.\<close>

definition raised :: "slot_exc \<Rightarrow> fpscr_t \<Rightarrow> bool" where
  "raised x r \<longleftrightarrow>
     (e_vxsnan x \<longrightarrow> vxsnan r) \<and> (e_vxisi x \<longrightarrow> vxisi r) \<and> (e_vximz x \<longrightarrow> vximz r) \<and>
     (e_vxidi x \<longrightarrow> vxidi r) \<and> (e_vxzdz x \<longrightarrow> vxzdz r) \<and> (e_vxsqrt x \<longrightarrow> vxsqrt r) \<and>
     (e_zx x \<longrightarrow> zx r)"

definition kept :: "fpscr_t \<Rightarrow> fpscr_t \<Rightarrow> bool" where
  "kept old new \<longleftrightarrow>
     (vxsnan old \<longrightarrow> vxsnan new) \<and> (vxisi old \<longrightarrow> vxisi new) \<and> (vximz old \<longrightarrow> vximz new) \<and>
     (vxidi old \<longrightarrow> vxidi new) \<and> (vxzdz old \<longrightarrow> vxzdz new) \<and> (vxsqrt old \<longrightarrow> vxsqrt new) \<and>
     (zx old \<longrightarrow> zx new)"

definition no_exc :: slot_exc where
  "no_exc = \<lparr>e_vxsnan = False, e_vxisi = False, e_vximz = False, e_vxidi = False,
             e_vxzdz = False, e_vxsqrt = False, e_zx = False\<rparr>"

text \<open>The result selection of an arithmetic slot (specification, section 4.3, step 5).\<close>

definition psArith_value :: "PSArithOperator \<Rightarrow> f64 \<Rightarrow> f64 \<Rightarrow> f32" where
  "psArith_value op a b =
     (let x = psArith_exc op a b
      in if is_nan a then make_quiet (truncate_double a)
         else if is_nan b then make_quiet (truncate_double b)
         else if e_vxisi x \<or> e_vximz x \<or> e_vxidi x \<or> e_vxzdz x then make_nan
         else fst (psArith_compute op a b))"

text \<open>The result of a fused multiply-add slot that does not come from the numeric branch: the
  first NaN among a, b and c, narrowed and quieted, else the quiet NaN constant.\<close>

definition fma_nan_result :: "f64 \<Rightarrow> f64 \<Rightarrow> f64 \<Rightarrow> f32" where
  "fma_nan_result a b c =
     (if is_nan a then make_quiet (truncate_double a)
      else if is_nan b then make_quiet (truncate_double b)
      else if is_nan c then make_quiet (truncate_double c)
      else make_nan)"

text \<open>A quiet NaN of single precision: a NaN whose quiet bit (bit 22) is set.\<close>

definition is_quiet_nan_f32 :: "f32 \<Rightarrow> bool" where
  "is_quiet_nan_f32 x \<longleftrightarrow> is_nan_f32 x \<and> bit x 22"

text \<open>The operand of a lane of \<open>ps_res\<close> and \<open>ps_rsqrte\<close>, the exception conditions of
  the lane (specification, section 4.7) and its value.\<close>

definition est_b :: "nat \<Rightarrow> ThreadState \<Rightarrow> Instruction \<Rightarrow> f64" where
  "est_b k s i =
     (if k = 0 then paired0 (fpr s (frB i)) else extend_float (paired1 (fpr s (frB i))))"

definition res_exc :: "f64 \<Rightarrow> slot_exc" where
  "res_exc b = no_exc\<lparr>e_vxsnan := is_signalling_nan b, e_zx := is_zero b\<rparr>"

definition rsqrte_exc :: "f64 \<Rightarrow> slot_exc" where
  "rsqrte_exc b =
     no_exc\<lparr>e_vxsnan := is_signalling_nan b,
            e_vxsqrt := (\<not> is_signalling_nan b \<and> signbit_d b \<and> \<not> is_zero b),
            e_zx := is_zero b\<rparr>"

definition est_value :: "(f64 \<Rightarrow> f32 \<times> fenv_t) \<Rightarrow> bool \<Rightarrow> f64 \<Rightarrow> f32" where
  "est_value compute invalid b =
     (if is_nan b then make_quiet (truncate_double b)
      else if invalid then make_nan
      else fst (compute b))"

definition psSum_ps0_value :: "f64 \<Rightarrow> f32" where
  "psSum_ps0_value c = (if is_nan c then truncate_double c else fst (f64_to_f32 c))"

datatype ps_instr =
  PS_add | PS_sub | PS_mul | PS_div | PS_muls0 | PS_muls1 | PS_sum0 | PS_sum1
  | PS_madd | PS_madds0 | PS_madds1 | PS_msub | PS_nmadd | PS_nmsub | PS_res | PS_rsqrte

fun exec :: "ps_instr \<Rightarrow> ThreadState \<Rightarrow> Instruction \<Rightarrow> ThreadState" where
  "exec PS_add = ps_add"
| "exec PS_sub = ps_sub"
| "exec PS_mul = ps_mul"
| "exec PS_div = ps_div"
| "exec PS_muls0 = ps_muls0"
| "exec PS_muls1 = ps_muls1"
| "exec PS_sum0 = ps_sum0"
| "exec PS_sum1 = ps_sum1"
| "exec PS_madd = ps_madd"
| "exec PS_madds0 = ps_madds0"
| "exec PS_madds1 = ps_madds1"
| "exec PS_msub = ps_msub"
| "exec PS_nmadd = ps_nmadd"
| "exec PS_nmsub = ps_nmsub"
| "exec PS_res = ps_res"
| "exec PS_rsqrte = ps_rsqrte"

fun slot_exc_of :: "ps_instr \<Rightarrow> nat \<Rightarrow> ThreadState \<Rightarrow> Instruction \<Rightarrow> slot_exc" where
  "slot_exc_of PS_add k s i = psArith_exc PSAdd (psArith_a k s i) (psArith_b PSAdd k s i)"
| "slot_exc_of PS_sub k s i = psArith_exc PSSub (psArith_a k s i) (psArith_b PSSub k s i)"
| "slot_exc_of PS_mul k s i = psArith_exc PSMul (psArith_a k s i) (psArith_b PSMul k s i)"
| "slot_exc_of PS_div k s i = psArith_exc PSDiv (psArith_a k s i) (psArith_b PSDiv k s i)"
| "slot_exc_of PS_muls0 k s i = psArith_exc PSMul (psArith_a k s i) (psArith_b PSMul 0 s i)"
| "slot_exc_of PS_muls1 k s i = psArith_exc PSMul (psArith_a k s i) (psArith_b PSMul 1 s i)"
| "slot_exc_of PS_sum0 k s i =
     (if k = 0 then psArith_exc PSAdd (psArith_a 0 s i) (psArith_b PSAdd 1 s i) else no_exc)"
| "slot_exc_of PS_sum1 k s i =
     (if k = 0 then no_exc else psArith_exc PSAdd (psArith_a 0 s i) (psArith_b PSAdd 1 s i))"
| "slot_exc_of PS_madd k s i = fma_exc 0 (fma_a k s i) (fma_b k s i) (fma_c k s i)"
| "slot_exc_of PS_madds0 k s i = fma_exc 0 (fma_a k s i) (fma_b k s i) (fma_c 0 s i)"
| "slot_exc_of PS_madds1 k s i = fma_exc 0 (fma_a k s i) (fma_b k s i) (fma_c 1 s i)"
| "slot_exc_of PS_msub k s i = fma_exc FMASubtract (fma_a k s i) (fma_b k s i) (fma_c k s i)"
| "slot_exc_of PS_nmadd k s i = fma_exc FMANegate (fma_a k s i) (fma_b k s i) (fma_c k s i)"
| "slot_exc_of PS_nmsub k s i =
     fma_exc (FMANegate OR FMASubtract) (fma_a k s i) (fma_b k s i) (fma_c k s i)"
| "slot_exc_of PS_res k s i = res_exc (est_b k s i)"
| "slot_exc_of PS_rsqrte k s i = rsqrte_exc (est_b k s i)"

fun slot_out :: "ps_instr \<Rightarrow> nat \<Rightarrow> ThreadState \<Rightarrow> Instruction \<Rightarrow> f32 option" where
  "slot_out PS_add k s i = snd (psArithSingle PSAdd k k s i)"
| "slot_out PS_sub k s i = snd (psArithSingle PSSub k k s i)"
| "slot_out PS_mul k s i = snd (psArithSingle PSMul k k s i)"
| "slot_out PS_div k s i = snd (psArithSingle PSDiv k k s i)"
| "slot_out PS_muls0 k s i = snd (psArithSingle PSMul k 0 s i)"
| "slot_out PS_muls1 k s i = snd (psArithSingle PSMul k 1 s i)"
| "slot_out PS_sum0 k s i =
     (if k = 0 then snd (psArithSingle PSAdd 0 1 s i) else Some (iw_paired1 (fpr s (frC i))))"
| "slot_out PS_sum1 k s i =
     (if k = 0 then Some (psSum_ps0_value (paired0 (fpr s (frC i))))
      else snd (psArithSingle PSAdd 0 1 s i))"
| "slot_out PS_madd k s i = snd (fmaSingle 0 k k s i)"
| "slot_out PS_madds0 k s i = snd (fmaSingle 0 k 0 s i)"
| "slot_out PS_madds1 k s i = snd (fmaSingle 0 k 1 s i)"
| "slot_out PS_msub k s i = snd (fmaSingle FMASubtract k k s i)"
| "slot_out PS_nmadd k s i = snd (fmaSingle FMANegate k k s i)"
| "slot_out PS_nmsub k s i = snd (fmaSingle (FMANegate OR FMASubtract) k k s i)"
| "slot_out PS_res k s i =
     (if slot_gate (res_exc (est_b k s i)) (fpscr s) then None
      else Some (est_value res_compute (is_signalling_nan (est_b k s i)) (est_b k s i)))"
| "slot_out PS_rsqrte k s i =
     (if slot_gate (rsqrte_exc (est_b k s i)) (fpscr s) then None
      else Some (est_value rsqrte_compute
                   (e_vxsnan (rsqrte_exc (est_b k s i)) \<or> e_vxsqrt (rsqrte_exc (est_b k s i)))
                   (est_b k s i)))"

text \<open>Both lanes of the destination are written: each slot has produced a value, lane 0
  holds the first, extended, and lane 1 the second; no other register changes.\<close>

definition written :: "ps_instr \<Rightarrow> ThreadState \<Rightarrow> Instruction \<Rightarrow> bool" where
  "written p s i \<longleftrightarrow>
     (\<exists>d0 d1. slot_out p 0 s i = Some d0 \<and> slot_out p 1 s i = Some d1 \<and>
        fpr (exec p s i) = (fpr s)(frD i := \<lparr>paired0 = extend_float d0, paired1 = d1\<rparr>))"

text \<open>The flags a slot of the arithmetic family raises on the host: those of its numeric
  branch, where that branch is reached.\<close>

definition psArith_raises :: "PSArithOperator \<Rightarrow> f64 \<Rightarrow> f64 \<Rightarrow> fpscr_t \<Rightarrow> fenv_t" where
  "psArith_raises op a b r =
     (let x = psArith_exc op a b
      in if slot_gate x r \<or> is_nan a \<or> is_nan b
            \<or> e_vxisi x \<or> e_vximz x \<or> e_vxidi x \<or> e_vxzdz x
         then fe_none
         else snd (psArith_compute op a b))"

section \<open>Concrete states\<close>

definition clear_fpscr :: fpscr_t where
  "clear_fpscr =
     \<lparr>vxsnan = False, vxisi = False, vximz = False, vxidi = False, vxzdz = False,
      vxsqrt = False, vxvc = False, vxsoft = False, vxcvi = False, zx = False, ox = False,
      ux = False, xx = False, ve = False, ze = False, oe = False, ue = False, xe = False,
      fprf = FPRF_PosZero, fx = False, fex = False, vx = False\<rparr>"

text \<open>A register file with \<open>A\<close>, \<open>B\<close> and \<open>C\<close> in registers 1, 2 and 3, and an
  instruction that reads them and writes register 4. In \<open>test_state\<close> the host's flags
  are clear and the conversion of \<open>psSumGeneric\<close> is where the text has it.\<close>

definition test_regs :: "fpr_t \<Rightarrow> fpr_t \<Rightarrow> fpr_t \<Rightarrow> 5 word \<Rightarrow> fpr_t" where
  "test_regs A B C i =
     (if i = 1 then A else if i = 2 then B else if i = 3 then C
      else \<lparr>paired0 = 0, paired1 = 0\<rparr>)"

definition test_state :: "fpr_t \<Rightarrow> fpr_t \<Rightarrow> fpr_t \<Rightarrow> fpscr_t \<Rightarrow> ThreadState" where
  "test_state A B C r =
     \<lparr>fpr = test_regs A B C, fpscr = r, cr1 = (False, False, False, False), fenv = fe_none,
      sum_conv = ConvAsWritten\<rparr>"

definition test_instr :: Instruction where
  "test_instr = \<lparr>frA = 1, frB = 2, frC = 3, frD = 4, rc = False\<rparr>"

definition lanes :: "f64 \<Rightarrow> f32 \<Rightarrow> fpr_t" where
  "lanes x y = \<lparr>paired0 = x, paired1 = y\<rparr>"

section \<open>Properties\<close>

subsection \<open>Evaluation and frame lemmas\<close>

lemmas fp_defs = binary64_def binary32_def fbits_def expmax_def bias_def qmin_def fp_sign_def
  fp_exp_def fp_frac_def fp_nan_def fp_snan_def fp_inf_def fp_zero_def sign_enc_def inf_enc_def
  zero_enc_def default_nan_def quiet_enc_def fp_mant_def fp_expo_def rne_def fp_round_def
  fp_round_sum_def sgn_int_def fp_nan2_def fp_add_def fp_neg_def fp_sub_def fp_mul_def
  fp_div_def fp_fma_def fp_sqrt_def fp_convert_def fp_ge_zero_def lift32_def lift64_def
  f64_add_def f64_sub_def f64_mul_def f64_div_def f64_fma_def f32_div_def f32_sqrt_def
  f64_to_f32_def f32_to_f64_def fe_none_def fe_invalid_def fe_divbyzero_def fe_or_def
  Let_def bitlen.simps

lemmas util_defs = exponent_d_def mantissa_d_def exponent_s_def mantissa_s_def is_nan_def
  is_signalling_nan_def is_infinity_def is_zero_def is_nan_f32_def make_quiet_def make_nan_def
  truncate_double_bits_def extend_float_nan_bits_def extend_float_def truncate_double_def
  signbit_d_def f64_neg_def f32_neg_def f32_ge_zero_def f32_one_def

lemmas test_defs = clear_fpscr_def test_regs_def test_state_def test_instr_def lanes_def

lemma record_rc_frame [simp]:
  "fpr (record_rc i s) = fpr s" "fpscr (record_rc i s) = fpscr s" "fenv (record_rc i s) = fenv s"
  by (simp_all add: record_rc_def updateFloatConditionRegister_def)

lemma raise_fenv_frame [simp]:
  "fpr (raise_fenv fl s) = fpr s" "fpscr (raise_fenv fl s) = fpscr s"
  "fenv (raise_fenv fl s) = fe_or (fenv s) fl"
  by (simp_all add: raise_fenv_def)

lemma test_state_sel [simp]:
  "fpr (test_state A B C r) = test_regs A B C" "fpscr (test_state A B C r) = r"
  "fenv (test_state A B C r) = fe_none"
  by (simp_all add: test_state_def)

lemma test_regs_sel [simp]:
  "test_regs A B C (frA test_instr) = A" "test_regs A B C (frB test_instr) = B"
  "test_regs A B C (frC test_instr) = C"
  by (simp_all add: test_regs_def test_instr_def)

lemma lanes_sel [simp]: "paired0 (lanes x y) = x" "paired1 (lanes x y) = y"
  by (simp_all add: lanes_def)

lemma clear_fpscr_sel [simp]: "ve clear_fpscr = False" "ze clear_fpscr = False"
  by (simp_all add: clear_fpscr_def)

lemma fma_ops_eval:
  "fma_a 0 (test_state A B C r) test_instr = paired0 A"
  "fma_b 0 (test_state A B C r) test_instr = paired0 B"
  "fma_c 0 (test_state A B C r) test_instr = paired0 C"
  "fma_a 1 (test_state A B C r) test_instr = extend_float (paired1 A)"
  "fma_b 1 (test_state A B C r) test_instr = extend_float (paired1 B)"
  "fma_c 1 (test_state A B C r) test_instr = extend_float (paired1 C)"
  by (simp_all add: fma_a_def fma_b_def fma_c_def)

subsection \<open>The negation of \<open>ps_nmadd\<close> and \<open>ps_nmsub\<close>\<close>

lemma fmaSingle_snd:
  "snd (fmaSingle fl sab sc s i) =
     (let a = fma_a sab s i; b = fma_b sab s i; c = fma_c sc s i; x = fma_exc fl a b c
      in if (e_vxsnan x \<or> e_vxisi x \<or> e_vximz x) \<and> ve (fpscr s) then None
         else if is_nan a \<or> is_nan b \<or> is_nan c \<or> e_vxisi x \<or> e_vximz x
           then Some (fma_nan_result a b c)
         else Some (fst (fma_compute fl a b c)))"
  by (simp add: fmaSingle_def Let_def fma_nan_result_def)

lemma fma_exc_negate:
  "fl = FMANegate \<or> fl = (FMANegate OR FMASubtract) \<Longrightarrow>
     fma_exc (fl AND FMASubtract) a b c = fma_exc fl a b c"
  by (auto simp add: fma_exc_def fma_addend_def FMANegate_def FMASubtract_def)

lemma fma_compute_negate:
  "fl = FMANegate \<or> fl = (FMANegate OR FMASubtract) \<Longrightarrow>
     fst (fma_compute fl a b c) = f32_neg (fst (fma_compute (fl AND FMASubtract) a b c))"
  by (auto simp add: fma_compute_def fma_addend_def FMANegate_def FMASubtract_def Let_def)

text \<open>
  Claim C10. In a slot of \<open>ps_nmadd\<close> (flags \<open>FMANegate\<close>) and \<open>ps_nmsub\<close> (flags
  \<open>FMANegate | FMASubtract\<close>), when an operand is a NaN or an invalid-operation condition
  (vxisi, vximz) holds, the slot's result, if the write gate lets it through, is the quieted
  NaN operand (a before b before c) or the quiet NaN constant, with no sign flip: it is the
  result of the instruction without \<open>FMANegate\<close>. Otherwise the result is the sign-flipped
  result of the instruction without \<open>FMANegate\<close>.
\<close>

theorem nmadd_negates_numeric_only:
  assumes "fl = FMANegate \<or> fl = (FMANegate OR FMASubtract)"
  shows "let a = fma_a sab s i; b = fma_b sab s i; c = fma_c sc s i;
             x = fma_exc fl a b c;
             gated = ((e_vxsnan x \<or> e_vxisi x \<or> e_vximz x) \<and> ve (fpscr s))
         in (is_nan a \<or> is_nan b \<or> is_nan c \<or> e_vxisi x \<or> e_vximz x \<longrightarrow>
               snd (fmaSingle fl sab sc s i)
                 = (if gated then None else Some (fma_nan_result a b c))
               \<and> snd (fmaSingle fl sab sc s i)
                   = snd (fmaSingle (fl AND FMASubtract) sab sc s i))
          \<and> (\<not> (is_nan a \<or> is_nan b \<or> is_nan c \<or> e_vxisi x \<or> e_vximz x) \<longrightarrow>
               snd (fmaSingle fl sab sc s i)
                 = map_option f32_neg (snd (fmaSingle (fl AND FMASubtract) sab sc s i)))"
  unfolding fmaSingle_snd Let_def fma_exc_negate [OF assms] fma_compute_negate [OF assms]
  by simp

theorem nmadd_negates_numeric_only_witness:
  "(FMANegate = FMANegate \<or> FMANegate = (FMANegate OR FMASubtract))
   \<and> is_nan (fma_a 0 (test_state (lanes 0x7FF8000000000000 0) (lanes 0x3FF0000000000000 0)
                          (lanes 0x3FF0000000000000 0) clear_fpscr) test_instr)
   \<and> snd (fmaSingle FMANegate 0 0
            (test_state (lanes 0x7FF8000000000000 0) (lanes 0x3FF0000000000000 0)
               (lanes 0x3FF0000000000000 0) clear_fpscr) test_instr) = Some 0x7FC00000
   \<and> snd (fmaSingle (FMANegate AND FMASubtract) 0 0
            (test_state (lanes 0x7FF8000000000000 0) (lanes 0x3FF0000000000000 0)
               (lanes 0x3FF0000000000000 0) clear_fpscr) test_instr) = Some 0x7FC00000
   \<and> \<not> is_nan (fma_a 0 (test_state (lanes 0x3FF0000000000000 0) (lanes 0x3FF0000000000000 0)
                          (lanes 0x3FF0000000000000 0) clear_fpscr) test_instr)
   \<and> snd (fmaSingle FMANegate 0 0
            (test_state (lanes 0x3FF0000000000000 0) (lanes 0x3FF0000000000000 0)
               (lanes 0x3FF0000000000000 0) clear_fpscr) test_instr)
       = map_option f32_neg (snd (fmaSingle (FMANegate AND FMASubtract) 0 0
            (test_state (lanes 0x3FF0000000000000 0) (lanes 0x3FF0000000000000 0)
               (lanes 0x3FF0000000000000 0) clear_fpscr) test_instr))"
proof -
  let ?n = "test_state (lanes 0x7FF8000000000000 0) (lanes 0x3FF0000000000000 0)
              (lanes 0x3FF0000000000000 0) clear_fpscr"
  let ?m = "test_state (lanes 0x3FF0000000000000 0) (lanes 0x3FF0000000000000 0)
              (lanes 0x3FF0000000000000 0) clear_fpscr"
  have c: "is_nan 0x7FF8000000000000" "\<not> is_nan 0x3FF0000000000000"
    "\<not> is_infinity 0x3FF0000000000000" "\<not> is_zero 0x3FF0000000000000"
    "make_quiet (truncate_double 0x7FF8000000000000) = 0x7FC00000"
    by (simp_all add: util_defs)
  have x: "e_vxisi (fma_exc FMANegate 0x3FF0000000000000 0x3FF0000000000000 0x3FF0000000000000) = False"
    "e_vximz (fma_exc FMANegate 0x3FF0000000000000 0x3FF0000000000000 0x3FF0000000000000) = False"
    by (simp_all add: fma_exc_def c)
  have h: "FMANegate = FMANegate \<or> FMANegate = (FMANegate OR FMASubtract)"
    by simp
  show ?thesis
    using nmadd_negates_numeric_only [OF h, of 0 ?n test_instr 0]
      nmadd_negates_numeric_only [OF h, of 0 ?m test_instr 0]
    by (auto simp add: fma_ops_eval c x fma_nan_result_def Let_def)
qed

subsection \<open>Bits of the helpers\<close>

lemma const_C0000000_64: "(0xC0000000 :: 64 word) = push_bit 30 (mask 2)"
  by (simp add: mask_eq_exp_minus_1 push_bit_eq_mult)

lemma const_3FFFFFFF_64: "(0x3FFFFFFF :: 64 word) = mask 30"
  by (simp add: mask_eq_exp_minus_1)

lemma const_C0000000_32: "(0xC0000000 :: 32 word) = push_bit 30 (mask 2)"
  by (simp add: mask_eq_exp_minus_1 push_bit_eq_mult)

lemma const_3FFFFFFF_32: "(0x3FFFFFFF :: 32 word) = mask 30"
  by (simp add: mask_eq_exp_minus_1)

lemma const_7_64: "(7 :: 64 word) = mask 3"
  by (simp add: mask_eq_exp_minus_1)

lemma const_00400000: "(0x00400000 :: 32 word) = push_bit 22 1"
  by (simp add: push_bit_eq_mult)

lemma const_7FF: "(0x7FF :: 11 word) = mask 11"
  by (simp add: mask_eq_exp_minus_1)

lemma const_FF: "(0xFF :: 8 word) = mask 8"
  by (simp add: mask_eq_exp_minus_1)

lemma bit_truncate_double_bits:
  "bit (truncate_double_bits v) n \<longleftrightarrow>
     n < 32 \<and> (if n < 30 then bit v (n + 29) else bit v (n + 32))"
  unfolding truncate_double_bits_def const_C0000000_64 const_3FFFFFFF_64
  by (auto simp add: bit_simps ac_simps)

lemma bit_extend_float_nan_bits:
  "bit (extend_float_nan_bits v) n \<longleftrightarrow>
     n < 64 \<and> (if n < 29 then False
               else if n < 59 then bit v (n - 29)
               else if n < 62 then bit v 30
               else bit v (n - 32))"
  unfolding extend_float_nan_bits_def const_C0000000_32 const_3FFFFFFF_32 const_7_64
  by (auto simp add: bit_simps ac_simps)

lemma exponent_d_ones: "exponent_d v = 0x7FF \<longleftrightarrow> (\<forall>n. 52 \<le> n \<and> n < 63 \<longrightarrow> bit v n)"
  unfolding exponent_d_def const_7FF
  apply (auto simp add: bit_eq_iff bit_simps)
  apply (drule_tac x="n - 52" in spec, simp)
  done

lemma exponent_s_ones: "exponent_s v = 0xFF \<longleftrightarrow> (\<forall>n. 23 \<le> n \<and> n < 31 \<longrightarrow> bit v n)"
  unfolding exponent_s_def const_FF
  apply (auto simp add: bit_eq_iff bit_simps)
  apply (drule_tac x="n - 23" in spec, simp)
  done

lemma mantissa_s_nonzero: "bit v 22 \<Longrightarrow> mantissa_s v \<noteq> 0"
  unfolding mantissa_s_def
  by (auto simp add: bit_eq_iff bit_simps intro!: exI [of _ 22])

lemma bit_make_quiet: "bit (make_quiet x) n \<longleftrightarrow> bit x n \<or> n = 22"
  unfolding make_quiet_def
  apply (subst const_00400000)
  apply (simp only: bit_or_iff bit_push_bit_iff bit_1_iff possible_bit_word)
  apply auto
  done

lemma make_quiet_nan:
  assumes "is_nan v"
  shows "is_quiet_nan_f32 (make_quiet (truncate_double v))"
proof -
  have e: "bit v n" if "52 \<le> n" "n < 63" for n
    using assms that by (simp add: is_nan_def exponent_d_ones)
  have "bit (truncate_double_bits v) n" if "23 \<le> n" "n < 31" for n
  proof (cases "n < 30")
    case True
    with that have "bit v (n + 29)" by (intro e) simp_all
    with True show ?thesis by (simp add: bit_truncate_double_bits)
  next
    case False
    with that have "bit v (n + 32)" by (intro e) simp_all
    with False that show ?thesis by (simp add: bit_truncate_double_bits)
  qed
  then have "\<forall>n. 23 \<le> n \<and> n < 31 \<longrightarrow> bit (make_quiet (truncate_double v)) n"
    by (simp add: bit_make_quiet truncate_double_def)
  then show ?thesis
    by (simp add: is_quiet_nan_f32_def is_nan_f32_def exponent_s_ones mantissa_s_nonzero
          bit_make_quiet)
qed

subsection \<open>Frames of the FPSCR engine\<close>

lemma updateFPRF_frame [simp]:
  "fpr (updateFPRF s v) = fpr s" "fenv (updateFPRF s v) = fenv s"
  "fprf (fpscr (updateFPRF s v)) = fp_classify binary64 (unat v)"
  "ve (fpscr (updateFPRF s v)) = ve (fpscr s)" "ze (fpscr (updateFPRF s v)) = ze (fpscr s)"
  "raised x (fpscr (updateFPRF s v)) = raised x (fpscr s)"
  "kept old (fpscr (updateFPRF s v)) = kept old (fpscr s)"
  by (simp_all add: updateFPRF_def raised_def kept_def)

lemma updateFPRF_f32_frame [simp]:
  "fpr (updateFPRF_f32 s w) = fpr s" "fenv (updateFPRF_f32 s w) = fenv s"
  "fprf (fpscr (updateFPRF_f32 s w)) = fp_classify binary32 (unat w)"
  "ve (fpscr (updateFPRF_f32 s w)) = ve (fpscr s)" "ze (fpscr (updateFPRF_f32 s w)) = ze (fpscr s)"
  "raised x (fpscr (updateFPRF_f32 s w)) = raised x (fpscr s)"
  "kept old (fpscr (updateFPRF_f32 s w)) = kept old (fpscr s)"
  by (simp_all add: updateFPRF_f32_def raised_def kept_def)

lemma fprf_update_raised [simp]:
  "raised x (r\<lparr>fprf := c\<rparr>) = raised x r" "kept r' (r\<lparr>fprf := c\<rparr>) = kept r' r"
  by (simp_all add: raised_def kept_def)

lemma updateFPRF_fpscr [simp]:
  "fpscr (updateFPRF s v) = (fpscr s)\<lparr>fprf := fp_classify binary64 (unat v)\<rparr>"
  "fpscr (updateFPRF_f32 s w) = (fpscr s)\<lparr>fprf := fp_classify binary32 (unat w)\<rparr>"
  by (simp_all add: updateFPRF_def updateFPRF_f32_def)

lemma updateFPSCR_frame [simp]:
  "fpr (updateFPSCR s old) = fpr s" "fenv (updateFPSCR s old) = fenv s"
  "fprf (fpscr (updateFPSCR s old)) = fprf (fpscr s)"
  by (simp_all add: updateFPSCR_def Let_def)

lemma updateFPSCR_raised:
  "raised x (fpscr s) \<Longrightarrow> raised x (fpscr (updateFPSCR s old))"
  "kept r (fpscr s) \<Longrightarrow> kept r (fpscr (updateFPSCR s old))"
  by (simp_all add: updateFPSCR_def Let_def raised_def kept_def)

lemma fpr_update_commute [simp]:
  "updateFPRF (s\<lparr>fpr := f\<rparr>) v = (updateFPRF s v)\<lparr>fpr := f\<rparr>"
  "updateFPSCR (s\<lparr>fpr := f\<rparr>) old = (updateFPSCR s old)\<lparr>fpr := f\<rparr>"
  by (simp_all add: updateFPRF_def updateFPSCR_def Let_def)

lemma fpr_t_both [simp]:
  "(r::fpr_t)\<lparr>paired0 := a, paired1 := b\<rparr> = \<lparr>paired0 = a, paired1 = b\<rparr>"
  by (cases r) simp

lemma raise_exc_frame [simp]:
  "ve (raise_exc x r) = ve r" "ze (raise_exc x r) = ze r" "fprf (raise_exc x r) = fprf r"
  by (simp_all add: raise_exc_def)

lemma raise_exc_raised: "raised x (raise_exc x r)" "kept r (raise_exc x r)"
  by (simp_all add: raise_exc_def raised_def kept_def)

lemma raised_mono: "raised x r \<Longrightarrow> kept r r' \<Longrightarrow> raised x r'"
  by (auto simp add: raised_def kept_def)

lemma kept_trans: "kept a b \<Longrightarrow> kept b c \<Longrightarrow> kept a c"
  by (auto simp add: kept_def)

lemma kept_refl [simp]: "kept a a"
  by (simp add: kept_def)

subsection \<open>One slot of the arithmetic family\<close>

lemma psArith_exc_vxsqrt [simp]: "e_vxsqrt (psArith_exc op a b) = False"
  by (cases op) (simp_all add: psArith_exc_def Let_def)

lemma psArithSingle_fpr [simp]: "fpr (fst (psArithSingle op sa sb s i)) = fpr s"
  by (simp add: psArithSingle_def Let_def)

lemma psArithSingle_fpscr:
  "fpscr (fst (psArithSingle op sa sb s i))
     = raise_exc (psArith_exc op (psArith_a sa s i) (psArith_b op sb s i)) (fpscr s)"
  by (simp add: psArithSingle_def Let_def)

lemma psArithSingle_snd:
  "snd (psArithSingle op sa sb s i) =
     (if slot_gate (psArith_exc op (psArith_a sa s i) (psArith_b op sb s i)) (fpscr s) then None
      else Some (psArith_value op (psArith_a sa s i) (psArith_b op sb s i)))"
  by (simp add: psArithSingle_def Let_def slot_gate_def psArith_value_def)

lemma psArith_operands_cong:
  "fpr t = fpr s \<Longrightarrow> psArith_a sa t i = psArith_a sa s i"
  "fpr t = fpr s \<Longrightarrow> psArith_b op sb t i = psArith_b op sb s i"
  by (simp_all add: psArith_a_def psArith_b_def)

lemma psArithSingle_cong:
  assumes "fpr t = fpr s" "ve (fpscr t) = ve (fpscr s)" "ze (fpscr t) = ze (fpscr s)"
  shows "snd (psArithSingle op sa sb t i) = snd (psArithSingle op sa sb s i)"
proof -
  have "slot_gate x (fpscr t) = slot_gate x (fpscr s)" for x
    by (simp add: slot_gate_def assms)
  then show ?thesis
    by (simp only: psArithSingle_snd psArith_operands_cong [OF assms(1)])
qed

lemma psArithSingle_after [simp]:
  "snd (psArithSingle op sa sb (fst (psArithSingle op' sa' sb' s i)) i)
     = snd (psArithSingle op sa sb s i)"
  "psArith_a sa (fst (psArithSingle op' sa' sb' s i)) i = psArith_a sa s i"
  "psArith_b op sb (fst (psArithSingle op' sa' sb' s i)) i = psArith_b op sb s i"
    apply (rule psArithSingle_cong)
      apply (simp_all add: psArithSingle_fpscr psArith_a_def psArith_b_def)
  done

lemma psArith_raised:
  "raised (psArith_exc op (psArith_a sa s i) (psArith_b op sb s i))
          (fpscr (fst (psArithSingle op sa sb s i)))"
  "kept (fpscr s) (fpscr (fst (psArithSingle op sa sb s i)))"
  by (simp_all add: psArithSingle_fpscr raise_exc_raised)

lemma psArithGeneric_fpr:
  "fpr (psArithGeneric op sb0 sb1 s i) =
     (case (snd (psArithSingle op 0 sb0 s i), snd (psArithSingle op 1 sb1 s i)) of
        (Some d0, Some d1) \<Rightarrow> (fpr s)(frD i := \<lparr>paired0 = extend_float d0, paired1 = d1\<rparr>)
      | _ \<Rightarrow> fpr s)"
proof (cases "snd (psArithSingle op 0 sb0 s i)")
  case None
  then show ?thesis
    by (simp add: psArithGeneric_def Let_def split_beta)
next
  case (Some d0)
  then show ?thesis
    by (cases "snd (psArithSingle op 1 sb1 s i)")
       (simp_all add: psArithGeneric_def Let_def split_beta)
qed

lemma psArithGeneric_fpscr:
  "raised (psArith_exc op (psArith_a 0 s i) (psArith_b op sb0 s i))
     (fpscr (psArithGeneric op sb0 sb1 s i))
   \<and> raised (psArith_exc op (psArith_a 1 s i) (psArith_b op sb1 s i))
       (fpscr (psArithGeneric op sb0 sb1 s i))
   \<and> kept (fpscr s) (fpscr (psArithGeneric op sb0 sb1 s i))"
proof -
  let ?s1 = "fst (psArithSingle op 0 sb0 s i)"
  let ?s2 = "fst (psArithSingle op 1 sb1 ?s1 i)"
  let ?x0 = "psArith_exc op (psArith_a 0 s i) (psArith_b op sb0 s i)"
  let ?x1 = "psArith_exc op (psArith_a 1 s i) (psArith_b op sb1 s i)"
  have k1: "kept (fpscr s) (fpscr ?s1)" and k2: "kept (fpscr ?s1) (fpscr ?s2)"
    by (rule psArith_raised(2))+
  have r0: "raised ?x0 (fpscr ?s2)"
    using psArith_raised(1) [of op 0 s i sb0] k2 by (rule raised_mono)
  have r1: "raised ?x1 (fpscr ?s2)"
    using psArith_raised(1) [of op 1 ?s1 i sb1] by simp
  have k: "kept (fpscr s) (fpscr ?s2)"
    using k1 k2 by (rule kept_trans)
  show ?thesis
    using r0 r1 k
    by (cases "snd (psArithSingle op 0 sb0 s i)"; cases "snd (psArithSingle op 1 sb1 s i)")
       (simp_all add: psArithGeneric_def Let_def split_beta updateFPSCR_raised)
qed

subsection \<open>NaN operands\<close>

lemma fma_exc_gate:
  "slot_gate (fma_exc fl a b c) r \<longleftrightarrow>
     (e_vxsnan (fma_exc fl a b c) \<or> e_vxisi (fma_exc fl a b c) \<or> e_vximz (fma_exc fl a b c)) \<and> ve r"
  by (simp add: slot_gate_def fma_exc_def)

text \<open>
  Claim C8. In a slot of an arithmetic instruction (\<open>psArithSingle\<close>, which serves
  \<open>ps_add\<close>, \<open>ps_sub\<close>, \<open>ps_mul\<close>, \<open>ps_div\<close>, \<open>ps_muls0\<close>, \<open>ps_muls1\<close> and the
  sums) with a NaN operand, the result, where the write gate lets the slot produce one, is the
  narrowed and quieted operand a if a is a NaN, else the narrowed and quieted operand b. In a
  slot of the fused multiply-add family the priority is a, then b, then c. The value produced
  is a quiet NaN: a NaN whose quiet bit is set.
\<close>

theorem nan_operand_priority:
  "(let a = psArith_a sa s i; b = psArith_b op sb s i
    in is_nan a \<or> is_nan b \<longrightarrow>
         snd (psArithSingle op sa sb s i)
           = (if slot_gate (psArith_exc op a b) (fpscr s) then None
              else Some (make_quiet (truncate_double (if is_nan a then a else b))))
         \<and> is_quiet_nan_f32 (make_quiet (truncate_double (if is_nan a then a else b))))
   \<and> (let a = fma_a sab s i; b = fma_b sab s i; c = fma_c sc s i
      in is_nan a \<or> is_nan b \<or> is_nan c \<longrightarrow>
           snd (fmaSingle fl sab sc s i)
             = (if slot_gate (fma_exc fl a b c) (fpscr s) then None
                else Some (make_quiet (truncate_double
                             (if is_nan a then a else if is_nan b then b else c))))
           \<and> is_quiet_nan_f32 (make_quiet (truncate_double
                                  (if is_nan a then a else if is_nan b then b else c))))"
  by (auto simp add: Let_def psArithSingle_snd psArith_value_def fmaSingle_snd fma_exc_gate
        fma_nan_result_def make_quiet_nan)

lemma psArith_ops_eval:
  "psArith_a 0 (test_state A B C r) test_instr = paired0 A"
  "psArith_a 1 (test_state A B C r) test_instr = extend_float (paired1 A)"
  "psArith_b op 0 (test_state A B C r) test_instr = paired0 (if op = PSMul then C else B)"
  "psArith_b op 1 (test_state A B C r) test_instr
     = extend_float (paired1 (if op = PSMul then C else B))"
  by (simp_all add: psArith_a_def psArith_b_def)

lemma slot_gate_clear [simp]: "slot_gate x clear_fpscr = False"
  by (simp add: slot_gate_def)

theorem nan_operand_priority_witness:
  "is_nan (psArith_a 0 (test_state (lanes 0x7FF4000000000000 0) (lanes 0xFFF8000000000000 0)
                          (lanes 0 0) clear_fpscr) test_instr)
   \<and> snd (psArithSingle PSAdd 0 0
            (test_state (lanes 0x7FF4000000000000 0) (lanes 0xFFF8000000000000 0)
               (lanes 0 0) clear_fpscr) test_instr) = Some 0x7FE00000
   \<and> is_quiet_nan_f32 0x7FE00000
   \<and> is_nan (fma_b 0 (test_state (lanes 0x3FF0000000000000 0) (lanes 0xFFF8000020000000 0)
                          (lanes 0x7FF8000000000000 0) clear_fpscr) test_instr)
   \<and> snd (fmaSingle 0 0 0
            (test_state (lanes 0x3FF0000000000000 0) (lanes 0xFFF8000020000000 0)
               (lanes 0x7FF8000000000000 0) clear_fpscr) test_instr) = Some 0xFFC00001
   \<and> is_quiet_nan_f32 0xFFC00001"
proof -
  have c: "is_nan 0x7FF4000000000000" "is_nan 0xFFF8000020000000"
    "\<not> is_nan 0x3FF0000000000000"
    "make_quiet (truncate_double 0x7FF4000000000000) = 0x7FE00000"
    "make_quiet (truncate_double 0xFFF8000020000000) = 0xFFC00001"
    by (simp_all add: util_defs)
  show ?thesis
    using nan_operand_priority [of 0 "test_state (lanes 0x7FF4000000000000 0)
              (lanes 0xFFF8000000000000 0) (lanes 0 0) clear_fpscr" test_instr PSAdd 0 0 0 0]
      nan_operand_priority [of 0 "test_state (lanes 0x3FF0000000000000 0)
              (lanes 0xFFF8000020000000 0) (lanes 0x7FF8000000000000 0) clear_fpscr"
              test_instr PSAdd 0 0 0 0]
    by (auto simp add: Let_def psArith_ops_eval fma_ops_eval c)
qed

subsection \<open>One slot of the fused multiply-add family\<close>

lemma fmaSingle_fpr [simp]: "fpr (fst (fmaSingle fl sab sc s i)) = fpr s"
  by (simp add: fmaSingle_def Let_def)

lemma fmaSingle_ve [simp]:
  "ve (fpscr (fst (fmaSingle fl sab sc s i))) = ve (fpscr s)"
  "ze (fpscr (fst (fmaSingle fl sab sc s i))) = ze (fpscr s)"
  by (simp_all add: fmaSingle_def Let_def)

lemma fma_exc_others [simp]:
  "e_vxidi (fma_exc fl a b c) = False" "e_vxzdz (fma_exc fl a b c) = False"
  "e_vxsqrt (fma_exc fl a b c) = False" "e_zx (fma_exc fl a b c) = False"
  by (simp_all add: fma_exc_def)

lemma fma_raised:
  "raised (fma_exc fl (fma_a sab s i) (fma_b sab s i) (fma_c sc s i))
          (fpscr (fst (fmaSingle fl sab sc s i)))"
  "kept (fpscr s) (fpscr (fst (fmaSingle fl sab sc s i)))"
  by (simp_all add: fmaSingle_def Let_def raised_def kept_def)

lemma fma_operands_cong:
  "fpr t = fpr s \<Longrightarrow> fma_a sab t i = fma_a sab s i"
  "fpr t = fpr s \<Longrightarrow> fma_b sab t i = fma_b sab s i"
  "fpr t = fpr s \<Longrightarrow> fma_c sc t i = fma_c sc s i"
  by (simp_all add: fma_a_def fma_b_def fma_c_def)

lemma fmaSingle_after [simp]:
  "snd (fmaSingle fl sab sc (fst (fmaSingle fl' sab' sc' s i)) i) = snd (fmaSingle fl sab sc s i)"
  "fma_a sab (fst (fmaSingle fl' sab' sc' s i)) i = fma_a sab s i"
  "fma_b sab (fst (fmaSingle fl' sab' sc' s i)) i = fma_b sab s i"
  "fma_c sc (fst (fmaSingle fl' sab' sc' s i)) i = fma_c sc s i"
  by (simp_all only: fmaSingle_snd fma_operands_cong [OF fmaSingle_fpr] fmaSingle_ve)

lemma fmaSingle_None:
  "snd (fmaSingle fl sab sc s i) = None \<longleftrightarrow>
     slot_gate (fma_exc fl (fma_a sab s i) (fma_b sab s i) (fma_c sc s i)) (fpscr s)"
  by (simp add: fmaSingle_snd Let_def fma_exc_gate)

lemma fmaGeneric_fpr:
  "fpr (fmaGeneric fl sc0 sc1 s i) =
     (case (snd (fmaSingle fl 0 sc0 s i), snd (fmaSingle fl 1 sc1 s i)) of
        (Some d0, Some d1) \<Rightarrow> (fpr s)(frD i := \<lparr>paired0 = extend_float d0, paired1 = d1\<rparr>)
      | _ \<Rightarrow> fpr s)"
proof (cases "snd (fmaSingle fl 0 sc0 s i)")
  case None
  then show ?thesis
    by (simp add: fmaGeneric_def Let_def split_beta)
next
  case (Some d0)
  then show ?thesis
    by (cases "snd (fmaSingle fl 1 sc1 s i)")
       (simp_all add: fmaGeneric_def Let_def split_beta)
qed

lemma fmaGeneric_fpscr:
  "raised (fma_exc fl (fma_a 0 s i) (fma_b 0 s i) (fma_c sc0 s i))
     (fpscr (fmaGeneric fl sc0 sc1 s i))
   \<and> raised (fma_exc fl (fma_a 1 s i) (fma_b 1 s i) (fma_c sc1 s i))
       (fpscr (fmaGeneric fl sc0 sc1 s i))
   \<and> kept (fpscr s) (fpscr (fmaGeneric fl sc0 sc1 s i))"
proof -
  let ?s1 = "fst (fmaSingle fl 0 sc0 s i)"
  let ?s2 = "fst (fmaSingle fl 1 sc1 ?s1 i)"
  let ?x0 = "fma_exc fl (fma_a 0 s i) (fma_b 0 s i) (fma_c sc0 s i)"
  let ?x1 = "fma_exc fl (fma_a 1 s i) (fma_b 1 s i) (fma_c sc1 s i)"
  have k1: "kept (fpscr s) (fpscr ?s1)" and k2: "kept (fpscr ?s1) (fpscr ?s2)"
    by (rule fma_raised(2))+
  have r0: "raised ?x0 (fpscr ?s2)"
    using fma_raised(1) [of fl 0 s i sc0] k2 by (rule raised_mono)
  have r1: "raised ?x1 (fpscr ?s2)"
    using fma_raised(1) [of fl 1 ?s1 i sc1] by simp
  have k: "kept (fpscr s) (fpscr ?s2)"
    using k1 k2 by (rule kept_trans)
  show ?thesis
    using r0 r1 k
    by (cases "snd (fmaSingle fl 0 sc0 s i)"; cases "snd (fmaSingle fl 1 sc1 s i)")
       (simp_all add: fmaGeneric_def Let_def split_beta updateFPSCR_raised)
qed

subsection \<open>The sum family\<close>

lemma clear_unless_frame [simp]:
  "fpr (clear_unless a b s) = fpr s" "fpscr (clear_unless a b s) = fpscr s"
  by (simp_all add: clear_unless_def)

lemma psSum_ps0_frame [simp]:
  "fpr (fst (psSum_ps0 s c)) = fpr s" "fpscr (fst (psSum_ps0 s c)) = fpscr s"
  by (simp_all add: psSum_ps0_def Let_def)

lemma psSum_ps0_snd [simp]: "snd (psSum_ps0 s c) = psSum_ps0_value c"
  by (simp add: psSum_ps0_def psSum_ps0_value_def Let_def)

lemma psSumGeneric_fpr:
  "fpr (psSumGeneric slot s i) =
     (case snd (psArithSingle PSAdd 0 1 s i) of
        None \<Rightarrow> fpr s
      | Some d \<Rightarrow>
          (fpr s)(frD i :=
             (if slot = 0
              then \<lparr>paired0 = extend_float d, paired1 = iw_paired1 (fpr s (frC i))\<rparr>
              else \<lparr>paired0 = extend_float (psSum_ps0_value (paired0 (fpr s (frC i)))),
                    paired1 = d\<rparr>)))"
  by (cases "psArithSingle PSAdd 0 1 s i"; cases "snd (psArithSingle PSAdd 0 1 s i)")
     (use psArithSingle_fpr [of PSAdd 0 1 s i] in
       \<open>simp_all add: psSumGeneric_def psSum_body_def Let_def split_beta psSum_ps0_snd\<close>)

lemma psSumGeneric_fpscr:
  "raised (psArith_exc PSAdd (psArith_a 0 s i) (psArith_b PSAdd 1 s i))
     (fpscr (psSumGeneric slot s i))
   \<and> kept (fpscr s) (fpscr (psSumGeneric slot s i))"
  by (cases "psArithSingle PSAdd 0 1 s i"; cases "snd (psArithSingle PSAdd 0 1 s i)")
     (use psArith_raised [where op = PSAdd and sa = 0 and sb = 1 and s = s and i = i] in
       \<open>simp_all add: psSumGeneric_def psSum_body_def Let_def split_beta updateFPSCR_raised\<close>)

subsection \<open>The estimates\<close>

lemma no_exc_sel [simp]:
  "e_vxsnan no_exc = False" "e_vxisi no_exc = False" "e_vximz no_exc = False"
  "e_vxidi no_exc = False" "e_vxzdz no_exc = False" "e_vxsqrt no_exc = False"
  "e_zx no_exc = False"
  by (simp_all add: no_exc_def)

lemma slot_gate_no_exc [simp]: "slot_gate no_exc r = False"
  by (simp add: slot_gate_def)

lemma raised_no_exc [simp]: "raised no_exc r"
  by (simp add: raised_def)

lemma rsqrte_exc_sel [simp]:
  "e_vxsnan (rsqrte_exc b) = is_signalling_nan b"
  "e_vxsqrt (rsqrte_exc b) = (\<not> is_signalling_nan b \<and> signbit_d b \<and> \<not> is_zero b)"
  "e_zx (rsqrte_exc b) = is_zero b"
  "e_vxisi (rsqrte_exc b) = False" "e_vximz (rsqrte_exc b) = False"
  "e_vxidi (rsqrte_exc b) = False" "e_vxzdz (rsqrte_exc b) = False"
  by (simp_all add: rsqrte_exc_def)

lemma res_exc_sel [simp]:
  "e_vxsnan (res_exc b) = is_signalling_nan b"
  "e_vxsqrt (res_exc b) = False"
  "e_zx (res_exc b) = is_zero b"
  "e_vxisi (res_exc b) = False" "e_vximz (res_exc b) = False"
  "e_vxidi (res_exc b) = False" "e_vxzdz (res_exc b) = False"
  by (simp_all add: res_exc_def)

lemma est_lane_frame [simp]:
  "fpr (fst (est_lane f iv b s)) = fpr s" "fpscr (fst (est_lane f iv b s)) = fpscr s"
  by (simp_all add: est_lane_def)

lemma est_lane_snd [simp]: "snd (est_lane f iv b s) = est_value f iv b"
  by (simp add: est_lane_def est_value_def)

lemma est_slot_frame [simp]:
  "fpr (fst (est_slot f g iv rf b s)) = fpr s"
  "ve (fpscr (fst (est_slot f g iv rf b s))) = ve (fpscr s)"
  "ze (fpscr (fst (est_slot f g iv rf b s))) = ze (fpscr s)"
  "raised x (fpscr (fst (est_slot f g iv rf b s))) = raised x (fpscr s)"
  "kept r (fpscr (fst (est_slot f g iv rf b s))) = kept r (fpscr s)"
  by (simp_all add: est_slot_def split_beta raised_def kept_def)

lemma est_slot_snd [simp]:
  "snd (est_slot f g iv rf b s) = (if g then None else Some (est_value f iv b))"
  by (simp add: est_slot_def split_beta)

lemma commit_frame [simp]:
  "fpscr (case p of (Some v0, Some v1) \<Rightarrow> t\<lparr>fpr := F v0 v1\<rparr> | _ \<Rightarrow> t) = fpscr t"
  "fenv (case p of (Some v0, Some v1) \<Rightarrow> t\<lparr>fpr := F v0 v1\<rparr> | _ \<Rightarrow> t) = fenv t"
  by (simp_all split: prod.split option.split)

lemma ps_res_fpr:
  "fpr (ps_res s i) =
     (if slot_gate (res_exc (est_b 0 s i)) (fpscr s) \<or> slot_gate (res_exc (est_b 1 s i)) (fpscr s)
      then fpr s
      else (fpr s)(frD i :=
             \<lparr>paired0 = extend_float (est_value res_compute
                                           (is_signalling_nan (est_b 0 s i)) (est_b 0 s i)),
              paired1 = est_value res_compute
                               (is_signalling_nan (est_b 1 s i)) (est_b 1 s i)\<rparr>))"
  by (simp add: ps_res_def Let_def split_beta slot_gate_def est_b_def)

lemma res_flags_raised:
  "raised (res_exc b0)
     (r\<lparr>vxsnan := vxsnan r \<or> (is_signalling_nan b0 \<or> is_signalling_nan b1),
       zx := zx r \<or> (is_zero b0 \<or> is_zero b1)\<rparr>)"
  "raised (res_exc b1)
     (r\<lparr>vxsnan := vxsnan r \<or> (is_signalling_nan b0 \<or> is_signalling_nan b1),
       zx := zx r \<or> (is_zero b0 \<or> is_zero b1)\<rparr>)"
  "kept r
     (r\<lparr>vxsnan := vxsnan r \<or> (is_signalling_nan b0 \<or> is_signalling_nan b1),
       zx := zx r \<or> (is_zero b0 \<or> is_zero b1)\<rparr>)"
  by (simp_all add: raised_def kept_def)

lemma ps_res_fpscr:
  "raised (res_exc (est_b 0 s i)) (fpscr (ps_res s i))
   \<and> raised (res_exc (est_b 1 s i)) (fpscr (ps_res s i))
   \<and> kept (fpscr s) (fpscr (ps_res s i))"
  by (simp only: ps_res_def Let_def split_beta record_rc_frame)
     (simp add: updateFPSCR_raised est_b_def res_flags_raised)

lemma ps_rsqrte_fpr:
  "fpr (ps_rsqrte s i) =
     (if slot_gate (rsqrte_exc (est_b 0 s i)) (fpscr s)
         \<or> slot_gate (rsqrte_exc (est_b 1 s i)) (fpscr s)
      then fpr s
      else (fpr s)(frD i :=
             \<lparr>paired0 = extend_float (est_value rsqrte_compute
                 (e_vxsnan (rsqrte_exc (est_b 0 s i)) \<or> e_vxsqrt (rsqrte_exc (est_b 0 s i)))
                 (est_b 0 s i)),
              paired1 = est_value rsqrte_compute
                 (e_vxsnan (rsqrte_exc (est_b 1 s i)) \<or> e_vxsqrt (rsqrte_exc (est_b 1 s i)))
                 (est_b 1 s i)\<rparr>))"
  by (simp add: ps_rsqrte_def Let_def split_beta slot_gate_def est_b_def)

lemma rsqrte_flags_raised:
  "raised (rsqrte_exc b0)
     (r\<lparr>vxsnan := vxsnan r \<or> (is_signalling_nan b0 \<or> is_signalling_nan b1),
       vxsqrt := vxsqrt r \<or> ((\<not> is_signalling_nan b0 \<and> signbit_d b0 \<and> \<not> is_zero b0)
                              \<or> (\<not> is_signalling_nan b1 \<and> signbit_d b1 \<and> \<not> is_zero b1)),
       zx := zx r \<or> (is_zero b0 \<or> is_zero b1)\<rparr>)"
  "raised (rsqrte_exc b1)
     (r\<lparr>vxsnan := vxsnan r \<or> (is_signalling_nan b0 \<or> is_signalling_nan b1),
       vxsqrt := vxsqrt r \<or> ((\<not> is_signalling_nan b0 \<and> signbit_d b0 \<and> \<not> is_zero b0)
                              \<or> (\<not> is_signalling_nan b1 \<and> signbit_d b1 \<and> \<not> is_zero b1)),
       zx := zx r \<or> (is_zero b0 \<or> is_zero b1)\<rparr>)"
  "kept r
     (r\<lparr>vxsnan := vxsnan r \<or> (is_signalling_nan b0 \<or> is_signalling_nan b1),
       vxsqrt := vxsqrt r \<or> ((\<not> is_signalling_nan b0 \<and> signbit_d b0 \<and> \<not> is_zero b0)
                              \<or> (\<not> is_signalling_nan b1 \<and> signbit_d b1 \<and> \<not> is_zero b1)),
       zx := zx r \<or> (is_zero b0 \<or> is_zero b1)\<rparr>)"
  by (simp_all add: raised_def kept_def)

lemma ps_rsqrte_fpscr:
  "raised (rsqrte_exc (est_b 0 s i)) (fpscr (ps_rsqrte s i))
   \<and> raised (rsqrte_exc (est_b 1 s i)) (fpscr (ps_rsqrte s i))
   \<and> kept (fpscr s) (fpscr (ps_rsqrte s i))"
  by (simp only: ps_rsqrte_def Let_def split_beta record_rc_frame)
     (simp add: updateFPSCR_raised est_b_def rsqrte_flags_raised del: disj_not1)

lemma arith_gate_atomic:
  assumes e: "exec p = psArithGeneric op b0 b1"
    and x0: "slot_exc_of p 0 s i = psArith_exc op (psArith_a 0 s i) (psArith_b op b0 s i)"
    and x1: "slot_exc_of p 1 s i = psArith_exc op (psArith_a 1 s i) (psArith_b op b1 s i)"
    and o0: "slot_out p 0 s i = snd (psArithSingle op 0 b0 s i)"
    and o1: "slot_out p 1 s i = snd (psArithSingle op 1 b1 s i)"
  shows "(\<not> slot_gate (slot_exc_of p 0 s i) (fpscr s) \<and> \<not> slot_gate (slot_exc_of p 1 s i) (fpscr s)
            \<longrightarrow> written p s i)
       \<and> (slot_gate (slot_exc_of p 0 s i) (fpscr s) \<or> slot_gate (slot_exc_of p 1 s i) (fpscr s)
            \<longrightarrow> fpr (exec p s i) = fpr s)
       \<and> raised (slot_exc_of p 0 s i) (fpscr (exec p s i))
       \<and> raised (slot_exc_of p 1 s i) (fpscr (exec p s i))
       \<and> kept (fpscr s) (fpscr (exec p s i))"
  unfolding written_def e x0 x1 o0 o1
  using psArithGeneric_fpscr [of op s i b0 b1]
  by (auto simp add: psArithGeneric_fpr psArithSingle_snd)

lemma fma_gate_atomic:
  assumes e: "exec p = fmaGeneric fl c0 c1"
    and x0: "slot_exc_of p 0 s i = fma_exc fl (fma_a 0 s i) (fma_b 0 s i) (fma_c c0 s i)"
    and x1: "slot_exc_of p 1 s i = fma_exc fl (fma_a 1 s i) (fma_b 1 s i) (fma_c c1 s i)"
    and o0: "slot_out p 0 s i = snd (fmaSingle fl 0 c0 s i)"
    and o1: "slot_out p 1 s i = snd (fmaSingle fl 1 c1 s i)"
  shows "(\<not> slot_gate (slot_exc_of p 0 s i) (fpscr s) \<and> \<not> slot_gate (slot_exc_of p 1 s i) (fpscr s)
            \<longrightarrow> written p s i)
       \<and> (slot_gate (slot_exc_of p 0 s i) (fpscr s) \<or> slot_gate (slot_exc_of p 1 s i) (fpscr s)
            \<longrightarrow> fpr (exec p s i) = fpr s)
       \<and> raised (slot_exc_of p 0 s i) (fpscr (exec p s i))
       \<and> raised (slot_exc_of p 1 s i) (fpscr (exec p s i))
       \<and> kept (fpscr s) (fpscr (exec p s i))"
proof -
  have n0: "(snd (fmaSingle fl 0 c0 s i) = None)
              = slot_gate (fma_exc fl (fma_a 0 s i) (fma_b 0 s i) (fma_c c0 s i)) (fpscr s)"
    and n1: "(snd (fmaSingle fl 1 c1 s i) = None)
              = slot_gate (fma_exc fl (fma_a 1 s i) (fma_b 1 s i) (fma_c c1 s i)) (fpscr s)"
    by (rule fmaSingle_None)+
  show ?thesis
    unfolding written_def e x0 x1 o0 o1 n0 [symmetric] n1 [symmetric]
    using fmaGeneric_fpscr [of fl s i c0 c1]
    by (auto simp add: fmaGeneric_fpr split: option.splits)
qed

subsection \<open>The write gate\<close>

lemmas ps_defs = ps_add_def ps_sub_def ps_mul_def ps_div_def ps_muls0_def ps_muls1_def
  ps_sum0_def ps_sum1_def ps_madd_def ps_madds0_def ps_madds1_def ps_msub_def ps_nmadd_def
  ps_nmsub_def

lemma sum_gate_atomic:
  assumes p: "p = PS_sum0 \<or> p = PS_sum1"
  shows "(\<not> slot_gate (slot_exc_of p 0 s i) (fpscr s) \<and> \<not> slot_gate (slot_exc_of p 1 s i) (fpscr s)
            \<longrightarrow> written p s i)
       \<and> (slot_gate (slot_exc_of p 0 s i) (fpscr s) \<or> slot_gate (slot_exc_of p 1 s i) (fpscr s)
            \<longrightarrow> fpr (exec p s i) = fpr s)
       \<and> raised (slot_exc_of p 0 s i) (fpscr (exec p s i))
       \<and> raised (slot_exc_of p 1 s i) (fpscr (exec p s i))
       \<and> kept (fpscr s) (fpscr (exec p s i))"
  using p psSumGeneric_fpscr [of s i 0] psSumGeneric_fpscr [of s i 1]
  by (auto simp add: written_def ps_sum0_def ps_sum1_def psSumGeneric_fpr psArithSingle_snd)

lemma est_gate_atomic:
  assumes p: "p = PS_res \<or> p = PS_rsqrte"
  shows "(\<not> slot_gate (slot_exc_of p 0 s i) (fpscr s) \<and> \<not> slot_gate (slot_exc_of p 1 s i) (fpscr s)
            \<longrightarrow> written p s i)
       \<and> (slot_gate (slot_exc_of p 0 s i) (fpscr s) \<or> slot_gate (slot_exc_of p 1 s i) (fpscr s)
            \<longrightarrow> fpr (exec p s i) = fpr s)
       \<and> raised (slot_exc_of p 0 s i) (fpscr (exec p s i))
       \<and> raised (slot_exc_of p 1 s i) (fpscr (exec p s i))
       \<and> kept (fpscr s) (fpscr (exec p s i))"
  using p ps_res_fpscr [of s i] ps_rsqrte_fpscr [of s i]
  by (auto simp add: written_def ps_res_fpr ps_rsqrte_fpr simp del: rsqrte_exc_sel res_exc_sel)

text \<open>
  Claim C1. For each of the sixteen instructions that write \<open>frD\<close> under an exception gate
  (\<open>ps_add\<close>, \<open>ps_sub\<close>, \<open>ps_mul\<close>, \<open>ps_div\<close>, \<open>ps_muls0\<close>, \<open>ps_muls1\<close>,
  \<open>ps_sum0\<close>, \<open>ps_sum1\<close>, the six fused multiply-adds, \<open>ps_res\<close>, \<open>ps_rsqrte\<close>) and
  every starting state: if the write gate of neither slot triggers, both lanes of \<open>frD\<close> are
  written with the values of the two slots and no other register changes; if the gate of either
  slot triggers, the register file is unchanged, \<open>frD\<close> included; in both cases the
  exception conditions of both slots are flagged in the resulting FPSCR, and the sticky
  exception bits that were set before stay set.
\<close>

theorem write_gate_atomic:
  "(\<not> slot_gate (slot_exc_of p 0 s i) (fpscr s) \<and> \<not> slot_gate (slot_exc_of p 1 s i) (fpscr s)
      \<longrightarrow> written p s i)
   \<and> (slot_gate (slot_exc_of p 0 s i) (fpscr s) \<or> slot_gate (slot_exc_of p 1 s i) (fpscr s)
      \<longrightarrow> fpr (exec p s i) = fpr s)
   \<and> raised (slot_exc_of p 0 s i) (fpscr (exec p s i))
   \<and> raised (slot_exc_of p 1 s i) (fpscr (exec p s i))
   \<and> kept (fpscr s) (fpscr (exec p s i))"
proof (cases p)
  case PS_add
  show ?thesis
    by (rule arith_gate_atomic [where op = PSAdd and ?b0.0 = 0 and ?b1.0 = 1])
       (simp_all add: PS_add fun_eq_iff ps_defs)
next
  case PS_sub
  show ?thesis
    by (rule arith_gate_atomic [where op = PSSub and ?b0.0 = 0 and ?b1.0 = 1])
       (simp_all add: PS_sub fun_eq_iff ps_defs)
next
  case PS_mul
  show ?thesis
    by (rule arith_gate_atomic [where op = PSMul and ?b0.0 = 0 and ?b1.0 = 1])
       (simp_all add: PS_mul fun_eq_iff ps_defs)
next
  case PS_div
  show ?thesis
    by (rule arith_gate_atomic [where op = PSDiv and ?b0.0 = 0 and ?b1.0 = 1])
       (simp_all add: PS_div fun_eq_iff ps_defs)
next
  case PS_muls0
  show ?thesis
    by (rule arith_gate_atomic [where op = PSMul and ?b0.0 = 0 and ?b1.0 = 0])
       (simp_all add: PS_muls0 fun_eq_iff ps_defs)
next
  case PS_muls1
  show ?thesis
    by (rule arith_gate_atomic [where op = PSMul and ?b0.0 = 1 and ?b1.0 = 1])
       (simp_all add: PS_muls1 fun_eq_iff ps_defs)
next
  case PS_sum0
  then show ?thesis by (intro sum_gate_atomic) simp
next
  case PS_sum1
  then show ?thesis by (intro sum_gate_atomic) simp
next
  case PS_madd
  show ?thesis
    by (rule fma_gate_atomic [where fl = 0 and ?c0.0 = 0 and ?c1.0 = 1])
       (simp_all add: PS_madd fun_eq_iff ps_defs)
next
  case PS_madds0
  show ?thesis
    by (rule fma_gate_atomic [where fl = 0 and ?c0.0 = 0 and ?c1.0 = 0])
       (simp_all add: PS_madds0 fun_eq_iff ps_defs)
next
  case PS_madds1
  show ?thesis
    by (rule fma_gate_atomic [where fl = 0 and ?c0.0 = 1 and ?c1.0 = 1])
       (simp_all add: PS_madds1 fun_eq_iff ps_defs)
next
  case PS_msub
  show ?thesis
    by (rule fma_gate_atomic [where fl = FMASubtract and ?c0.0 = 0 and ?c1.0 = 1])
       (simp_all add: PS_msub fun_eq_iff ps_defs)
next
  case PS_nmadd
  show ?thesis
    by (rule fma_gate_atomic [where fl = FMANegate and ?c0.0 = 0 and ?c1.0 = 1])
       (simp_all add: PS_nmadd fun_eq_iff ps_defs)
next
  case PS_nmsub
  show ?thesis
    by (rule fma_gate_atomic [where fl = "FMANegate OR FMASubtract" and ?c0.0 = 0 and ?c1.0 = 1])
       (simp_all add: PS_nmsub fun_eq_iff ps_defs)
next
  case PS_res
  then show ?thesis by (intro est_gate_atomic) simp
next
  case PS_rsqrte
  then show ?thesis by (intro est_gate_atomic) simp
qed

lemma fpscr_ve_sel [simp]:
  "ve (clear_fpscr\<lparr>ve := True\<rparr>) = True" "ze (clear_fpscr\<lparr>ve := True\<rparr>) = False"
  by (simp_all add: clear_fpscr_def)

theorem write_gate_atomic_witness:
  "\<not> slot_gate (slot_exc_of PS_add 0
        (test_state (lanes 0x7FF0000000000000 0x3F800000) (lanes 0xFFF0000000000000 0x40000000)
           (lanes 0 0) clear_fpscr) test_instr) clear_fpscr
   \<and> \<not> slot_gate (slot_exc_of PS_add 1
        (test_state (lanes 0x7FF0000000000000 0x3F800000) (lanes 0xFFF0000000000000 0x40000000)
           (lanes 0 0) clear_fpscr) test_instr) clear_fpscr
   \<and> written PS_add
        (test_state (lanes 0x7FF0000000000000 0x3F800000) (lanes 0xFFF0000000000000 0x40000000)
           (lanes 0 0) clear_fpscr) test_instr
   \<and> slot_gate (slot_exc_of PS_add 0
        (test_state (lanes 0x7FF0000000000000 0x3F800000) (lanes 0xFFF0000000000000 0x40000000)
           (lanes 0 0) (clear_fpscr\<lparr>ve := True\<rparr>)) test_instr) (clear_fpscr\<lparr>ve := True\<rparr>)
   \<and> fpr (exec PS_add
        (test_state (lanes 0x7FF0000000000000 0x3F800000) (lanes 0xFFF0000000000000 0x40000000)
           (lanes 0 0) (clear_fpscr\<lparr>ve := True\<rparr>)) test_instr)
       = test_regs (lanes 0x7FF0000000000000 0x3F800000) (lanes 0xFFF0000000000000 0x40000000)
           (lanes 0 0)
   \<and> vxisi (fpscr (exec PS_add
        (test_state (lanes 0x7FF0000000000000 0x3F800000) (lanes 0xFFF0000000000000 0x40000000)
           (lanes 0 0) (clear_fpscr\<lparr>ve := True\<rparr>)) test_instr))"
proof -
  let ?A = "lanes 0x7FF0000000000000 0x3F800000"
  let ?B = "lanes 0xFFF0000000000000 0x40000000"
  let ?s = "test_state ?A ?B (lanes 0 0) clear_fpscr"
  let ?t = "test_state ?A ?B (lanes 0 0) (clear_fpscr\<lparr>ve := True\<rparr>)"
  have x: "e_vxisi (psArith_exc PSAdd 0x7FF0000000000000 0xFFF0000000000000)"
    by (simp add: psArith_exc_def util_defs)
  have g: "slot_gate (slot_exc_of PS_add 0 ?t test_instr) (clear_fpscr\<lparr>ve := True\<rparr>)"
    using x by (simp add: slot_gate_def psArith_ops_eval)
  have r: "e_vxisi (slot_exc_of PS_add 0 ?t test_instr)"
    using x by (simp add: psArith_ops_eval)
  from write_gate_atomic [of PS_add ?s test_instr]
  have 1: "written PS_add ?s test_instr"
    by simp
  from write_gate_atomic [of PS_add ?t test_instr] g r
  have 2: "fpr (exec PS_add ?t test_instr) = fpr ?t \<and> vxisi (fpscr (exec PS_add ?t test_instr))"
    by (simp add: raised_def)
  from 1 2 g show ?thesis
    by simp
qed

lemma fe_or_sel [simp]:
  "FE_INVALID (fe_or x y) = (FE_INVALID x \<or> FE_INVALID y)"
  "FE_DIVBYZERO (fe_or x y) = (FE_DIVBYZERO x \<or> FE_DIVBYZERO y)"
  "FE_OVERFLOW (fe_or x y) = (FE_OVERFLOW x \<or> FE_OVERFLOW y)"
  "FE_UNDERFLOW (fe_or x y) = (FE_UNDERFLOW x \<or> FE_UNDERFLOW y)"
  "FE_INEXACT (fe_or x y) = (FE_INEXACT x \<or> FE_INEXACT y)"
  by (simp_all add: fe_or_def)

lemma fe_none_sel [simp]:
  "FE_INVALID fe_none = False" "FE_DIVBYZERO fe_none = False" "FE_OVERFLOW fe_none = False"
  "FE_UNDERFLOW fe_none = False" "FE_INEXACT fe_none = False"
  by (simp_all add: fe_none_def)

lemma fe_or_none [simp]: "fe_or x fe_none = x"
  by (simp add: fe_or_def)

lemma psArithSingle_fenv:
  "fenv (fst (psArithSingle op sa sb s i))
     = fe_or (fenv s) (psArith_raises op (psArith_a sa s i) (psArith_b op sb s i) (fpscr s))"
  by (simp add: psArithSingle_def psArith_raises_def Let_def slot_gate_def)

subsection \<open>The sum: FPRF and the host's flags\<close>

lemma psSum_body_Some:
  assumes "snd (psArithSingle PSAdd 0 1 s i) = Some d"
  shows "fprf (fpscr (psSum_body slot s i)) = fp_classify binary64 (unat (extend_float d))"
    and "slot \<noteq> 0 \<Longrightarrow> paired1 (fpr (psSum_body slot s i) (frD i)) = d"
    and "slot = 0 \<Longrightarrow> paired0 (fpr (psSum_body slot s i) (frD i)) = extend_float d"
  using assms
  by (cases "psArithSingle PSAdd 0 1 s i"; simp add: psSum_body_def Let_def split_beta)+

text \<open>
  Claim C9. For \<open>ps_sum0\<close> and \<open>ps_sum1\<close>, whenever the sum slot is not write-gated,
  FPRF in the resulting FPSCR is the class of the sum \<open>d\<close> extended to a double. For
  \<open>ps_sum0\<close> this is the value written to lane 0; for \<open>ps_sum1\<close> it is the value written
  to lane 1 (the sum), not the lane-0 value taken from \<open>frC\<close>.
\<close>

theorem sum_fprf_from_sum:
  "let a = psArith_a 0 s i; b = psArith_b PSAdd 1 s i; d = psArith_value PSAdd a b
   in \<not> slot_gate (psArith_exc PSAdd a b) (fpscr s) \<longrightarrow>
        fprf (fpscr (ps_sum0 s i)) = fp_classify binary64 (unat (extend_float d))
        \<and> paired0 (fpr (ps_sum0 s i) (frD i)) = extend_float d
        \<and> fprf (fpscr (ps_sum1 s i)) = fp_classify binary64 (unat (extend_float d))
        \<and> paired1 (fpr (ps_sum1 s i) (frD i)) = d
        \<and> fprf (fpscr (ps_sum1 s i))
            = fp_classify binary64 (unat (extend_float (paired1 (fpr (ps_sum1 s i) (frD i)))))"
proof -
  have "fprf (fpscr (ps_sum0 s i)) = fp_classify binary64 (unat (extend_float d))
        \<and> paired0 (fpr (ps_sum0 s i) (frD i)) = extend_float d
        \<and> fprf (fpscr (ps_sum1 s i)) = fp_classify binary64 (unat (extend_float d))
        \<and> paired1 (fpr (ps_sum1 s i) (frD i)) = d"
    if "snd (psArithSingle PSAdd 0 1 s i) = Some d" for d
    using psSum_body_Some [OF that]
    by (simp add: ps_sum0_def ps_sum1_def psSumGeneric_def Let_def)
  then show ?thesis
    by (simp add: Let_def psArithSingle_snd)
qed

lemma sum_conv_frame [simp]:
  "sum_conv (raise_fenv fl s) = sum_conv s" "sum_conv (updateFPRF s v) = sum_conv s"
  "sum_conv (fst (psArithSingle op sa sb s i)) = sum_conv s"
  by (simp_all add: raise_fenv_def updateFPRF_def psArithSingle_def Let_def)

lemma sum_conv_operands [simp]:
  "psArith_a sa (s\<lparr>sum_conv := k\<rparr>) i = psArith_a sa s i"
  "psArith_b op sb (s\<lparr>sum_conv := k\<rparr>) i = psArith_b op sb s i"
  by (simp_all add: psArith_a_def psArith_b_def)

lemma psSum_ps0_written:
  assumes "\<not> is_nan c" "sum_conv t = ConvAsWritten"
  shows "FE_INEXACT (fenv (fst (psSum_ps0 t c))) = FE_INEXACT (fenv t)"
    and "FE_OVERFLOW (fenv (fst (psSum_ps0 t c))) = FE_OVERFLOW (fenv t)"
  using assms by (auto simp add: psSum_ps0_def clear_unless_def Let_def)

lemma psSum_ps0_kept:
  assumes "sum_conv t = ConvAsWritten"
  shows "FE_INEXACT (fenv (fst (psSum_ps0 t c))) = FE_INEXACT (fenv t)"
    and "FE_OVERFLOW (fenv (fst (psSum_ps0 t c))) = FE_OVERFLOW (fenv t)"
  using assms by (auto simp add: psSum_ps0_def clear_unless_def Let_def)

lemma psSum_body_written:
  assumes "sum_conv s = ConvAsWritten"
  shows "FE_INEXACT (fenv (psSum_body slot s i))
           = FE_INEXACT (fenv (fst (psArithSingle PSAdd 0 1 s i)))"
    and "FE_OVERFLOW (fenv (psSum_body slot s i))
           = FE_OVERFLOW (fenv (fst (psArithSingle PSAdd 0 1 s i)))"
  using assms
  by (cases "snd (psArithSingle PSAdd 0 1 s i)";
      simp add: psSum_body_def Let_def split_beta psSum_ps0_kept)+

lemma psSum_ps0_moved:
  assumes "\<not> is_nan c" "sum_conv t \<noteq> ConvAsWritten"
  shows "fenv (fst (psSum_ps0 t c)) = fe_or (fenv t) (snd (f64_to_f32 c))"
  using assms
  by (cases "sum_conv t")
     (auto simp add: psSum_ps0_def clear_unless_def Let_def raise_fenv_def fe_or_def)

lemma psSum_body_moved:
  assumes "snd (psArithSingle PSAdd 0 1 s i) = Some d"
    and "\<not> is_nan (paired0 (fpr s (frC i)))" and "sum_conv s \<noteq> ConvAsWritten"
  shows "fenv (psSum_body 1 s i)
           = fe_or (fenv (fst (psArithSingle PSAdd 0 1 s i)))
                   (snd (f64_to_f32 (paired0 (fpr s (frC i)))))"
    and "xx (fpscr (psSum_body 1 s i)) = xx (fpscr s)"
proof -
  let ?t = "updateFPRF (fst (psArithSingle PSAdd 0 1 s i)) (extend_float d)"
  have "fenv (fst (psSum_ps0 ?t (paired0 (fpr s (frC i)))))
          = fe_or (fenv ?t) (snd (f64_to_f32 (paired0 (fpr s (frC i)))))"
    using assms(2,3) by (intro psSum_ps0_moved) simp_all
  then show "fenv (psSum_body 1 s i)
           = fe_or (fenv (fst (psArithSingle PSAdd 0 1 s i)))
                   (snd (f64_to_f32 (paired0 (fpr s (frC i)))))"
    using assms(1) by (simp add: psSum_body_def Let_def split_beta)
  show "xx (fpscr (psSum_body 1 s i)) = xx (fpscr s)"
    using assms(1)
    by (simp add: psSum_body_def Let_def split_beta psArithSingle_fpscr raise_exc_def)
qed

lemma updateFPSCR_xx:
  "xx (fpscr (updateFPSCR s old)) = (xx (fpscr s) \<or> FE_INEXACT (fenv s))"
  by (simp add: updateFPSCR_def Let_def)

text \<open>
  Claim C5. In \<open>ps_sum1\<close>, when lane 0 of \<open>frC\<close> is not a NaN, narrowing it to a float for
  the slot that is not summed leaves the host flags FE_INEXACT and FE_OVERFLOW as they were
  only if the host performs the conversion between the two tests and the two clears, where the
  text has it; then, at the call of \<open>updateFPSCR\<close>, the two flags are those on entry or-ed
  with those of the sum. The source does not fix that place. If the host converts before the
  tests or after the clears, the flags of the conversion stay in the host's environment: at
  the call of \<open>updateFPSCR\<close> it holds the flags on entry, those of the sum and those of the
  conversion, and FPSCR.XX, which \<open>updateFPSCR\<close> takes from FE_INEXACT, is set by an
  inexact conversion even if the sum is exact.
\<close>

theorem sum1_conversion_host_flags:
  "(\<not> is_nan c \<and> sum_conv t = ConvAsWritten \<longrightarrow>
      FE_INEXACT (fenv (fst (psSum_ps0 t c))) = FE_INEXACT (fenv t)
      \<and> FE_OVERFLOW (fenv (fst (psSum_ps0 t c))) = FE_OVERFLOW (fenv t))
   \<and> (\<not> is_nan c \<and> sum_conv t \<noteq> ConvAsWritten \<longrightarrow>
      fenv (fst (psSum_ps0 t c)) = fe_or (fenv t) (snd (f64_to_f32 c)))
   \<and> (let a = psArith_a 0 s i; b = psArith_b PSAdd 1 s i; c0 = paired0 (fpr s (frC i));
          raises = psArith_raises PSAdd a b (fpscr s)
      in (sum_conv s = ConvAsWritten \<longrightarrow>
            FE_INEXACT (fenv (psSum_body 1 s i)) = (FE_INEXACT (fenv s) \<or> FE_INEXACT raises)
            \<and> FE_OVERFLOW (fenv (psSum_body 1 s i))
                = (FE_OVERFLOW (fenv s) \<or> FE_OVERFLOW raises))
         \<and> (\<not> slot_gate (psArith_exc PSAdd a b) (fpscr s) \<and> \<not> is_nan c0
              \<and> sum_conv s \<noteq> ConvAsWritten \<longrightarrow>
            fenv (psSum_body 1 s i) = fe_or (fe_or (fenv s) raises) (snd (f64_to_f32 c0))
            \<and> xx (fpscr (ps_sum1 s i))
                = (xx (fpscr s) \<or> FE_INEXACT (fenv s) \<or> FE_INEXACT raises
                   \<or> FE_INEXACT (snd (f64_to_f32 c0)))))"
proof -
  have m: "fenv (psSum_body 1 s i)
          = fe_or (fe_or (fenv s)
              (psArith_raises PSAdd (psArith_a 0 s i) (psArith_b PSAdd 1 s i) (fpscr s)))
              (snd (f64_to_f32 (paired0 (fpr s (frC i)))))
        \<and> xx (fpscr (ps_sum1 s i))
            = (xx (fpscr s) \<or> FE_INEXACT (fenv s)
               \<or> FE_INEXACT (psArith_raises PSAdd (psArith_a 0 s i) (psArith_b PSAdd 1 s i)
                     (fpscr s))
               \<or> FE_INEXACT (snd (f64_to_f32 (paired0 (fpr s (frC i))))))"
    if "snd (psArithSingle PSAdd 0 1 s i) = Some d" "\<not> is_nan (paired0 (fpr s (frC i)))"
      "sum_conv s \<noteq> ConvAsWritten" for d
    using psSum_body_moved [OF that]
    by (simp add: ps_sum1_def psSumGeneric_def Let_def updateFPSCR_xx psArithSingle_fenv)
  have w: "FE_INEXACT (fenv (psSum_body 1 s i))
          = (FE_INEXACT (fenv s)
             \<or> FE_INEXACT (psArith_raises PSAdd (psArith_a 0 s i) (psArith_b PSAdd 1 s i)
                   (fpscr s)))
        \<and> FE_OVERFLOW (fenv (psSum_body 1 s i))
          = (FE_OVERFLOW (fenv s)
             \<or> FE_OVERFLOW (psArith_raises PSAdd (psArith_a 0 s i) (psArith_b PSAdd 1 s i)
                   (fpscr s)))"
    if "sum_conv s = ConvAsWritten"
    using psSum_body_written [OF that, of 1 i]
    by (simp add: psArithSingle_fenv)
  show ?thesis
    using m w by (simp add: Let_def psArithSingle_snd psSum_ps0_written psSum_ps0_moved)
qed

lemma add_1_2: "psArith_compute PSAdd 0x3FF0000000000000 0x4000000000000000 = (0x40400000, fe_none)"
  by (simp add: psArith_compute_def narrow_def fp_defs)

lemma ext_2f: "extend_float 0x40000000 = 0x4000000000000000"
  by (simp add: util_defs fp_defs)

lemma ext_3f: "extend_float 0x40400000 = 0x4008000000000000"
  by (simp add: util_defs fp_defs)

lemma psArith_ops_eval_Suc:
  "psArith_a (Suc 0) (test_state A B C r) test_instr = extend_float (paired1 A)"
  "psArith_b op (Suc 0) (test_state A B C r) test_instr
     = extend_float (paired1 (if op = PSMul then C else B))"
  by (simp_all add: psArith_a_def psArith_b_def)

lemma class_3: "fp_classify binary64 0x4008000000000000 = FPRF_PosNormal"
  by (simp add: fp_classify_def fp_defs)

lemma class_m1: "fp_classify binary64 0xBFF0000000000000 = FPRF_NegNormal"
  by (simp add: fp_classify_def fp_defs)

theorem sum_fprf_from_sum_witness:
  "\<not> slot_gate (psArith_exc PSAdd
          (psArith_a 0 (test_state (lanes 0x3FF0000000000000 0) (lanes 0 0x40000000)
                          (lanes 0xBFF0000000000000 0) clear_fpscr) test_instr)
          (psArith_b PSAdd 1 (test_state (lanes 0x3FF0000000000000 0) (lanes 0 0x40000000)
                          (lanes 0xBFF0000000000000 0) clear_fpscr) test_instr)) clear_fpscr
   \<and> fprf (fpscr (ps_sum1 (test_state (lanes 0x3FF0000000000000 0) (lanes 0 0x40000000)
                          (lanes 0xBFF0000000000000 0) clear_fpscr) test_instr)) = FPRF_PosNormal
   \<and> paired1 (fpr (ps_sum1 (test_state (lanes 0x3FF0000000000000 0) (lanes 0 0x40000000)
                          (lanes 0xBFF0000000000000 0) clear_fpscr) test_instr) (frD test_instr))
       = 0x40400000
   \<and> fp_classify binary64 (unat (0xBFF0000000000000 :: 64 word)) = FPRF_NegNormal"
proof -
  have n: "\<not> is_nan 0x3FF0000000000000" "\<not> is_nan 0x4000000000000000"
    "\<not> is_infinity 0x3FF0000000000000"
    by (simp_all add: util_defs)
  have v: "psArith_value PSAdd 0x3FF0000000000000 0x4000000000000000 = 0x40400000"
    by (simp add: psArith_value_def psArith_exc_def n add_1_2)
  show ?thesis
    using sum_fprf_from_sum [of "test_state (lanes 0x3FF0000000000000 0) (lanes 0 0x40000000)
                          (lanes 0xBFF0000000000000 0) clear_fpscr" test_instr]
    by (simp add: Let_def psArith_ops_eval psArith_ops_eval_Suc ext_2f ext_3f v class_3 class_m1)
qed

lemma conv_inexact:
  "f64_to_f32 0x3FF0000000000001 = (0x3F800000, fe_none\<lparr>FE_INEXACT := True\<rparr>)"
  by (simp add: fp_defs)

theorem sum1_conversion_host_flags_witness:
  "\<not> is_nan 0x3FF0000000000001
   \<and> FE_INEXACT (fenv (fst (psSum_ps0
        (test_state (lanes 0x3FF0000000000000 0) (lanes 0 0x40000000)
           (lanes 0x3FF0000000000001 0) clear_fpscr)
        0x3FF0000000000001))) = False
   \<and> psArith_raises PSAdd 0x3FF0000000000000 0x4000000000000000 clear_fpscr = fe_none
   \<and> FE_INEXACT (fenv (fst (psSum_ps0
        ((test_state (lanes 0x3FF0000000000000 0) (lanes 0 0x40000000)
           (lanes 0x3FF0000000000001 0) clear_fpscr)\<lparr>sum_conv := ConvAfterClear\<rparr>)
        0x3FF0000000000001)))
   \<and> FE_INEXACT (fenv (psSum_body 1
        ((test_state (lanes 0x3FF0000000000000 0) (lanes 0 0x40000000)
           (lanes 0x3FF0000000000001 0) clear_fpscr)\<lparr>sum_conv := ConvAfterClear\<rparr>)
        test_instr))
   \<and> xx (fpscr (ps_sum1
        ((test_state (lanes 0x3FF0000000000000 0) (lanes 0 0x40000000)
           (lanes 0x3FF0000000000001 0) clear_fpscr)\<lparr>sum_conv := ConvAfterClear\<rparr>)
        test_instr))"
proof -
  have n: "\<not> is_nan 0x3FF0000000000001" "\<not> is_nan 0x3FF0000000000000"
    "\<not> is_nan 0x4000000000000000" "\<not> is_infinity 0x3FF0000000000000"
    by (simp_all add: util_defs)
  have r: "psArith_raises PSAdd 0x3FF0000000000000 0x4000000000000000 clear_fpscr = fe_none"
    by (simp add: psArith_raises_def psArith_exc_def n add_1_2)
  have a: "FE_INEXACT (fenv (fst (psSum_ps0
        (test_state (lanes 0x3FF0000000000000 0) (lanes 0 0x40000000)
           (lanes 0x3FF0000000000001 0) clear_fpscr)
        0x3FF0000000000001))) = False"
    using sum1_conversion_host_flags [of "0x3FF0000000000001"
        "test_state (lanes 0x3FF0000000000000 0) (lanes 0 0x40000000)
           (lanes 0x3FF0000000000001 0) clear_fpscr"]
    by (simp add: n test_state_def)
  have b: "FE_INEXACT (fenv (fst (psSum_ps0
        ((test_state (lanes 0x3FF0000000000000 0) (lanes 0 0x40000000)
           (lanes 0x3FF0000000000001 0) clear_fpscr)\<lparr>sum_conv := ConvAfterClear\<rparr>)
        0x3FF0000000000001)))
     \<and> FE_INEXACT (fenv (psSum_body 1
        ((test_state (lanes 0x3FF0000000000000 0) (lanes 0 0x40000000)
           (lanes 0x3FF0000000000001 0) clear_fpscr)\<lparr>sum_conv := ConvAfterClear\<rparr>)
        test_instr))
     \<and> xx (fpscr (ps_sum1
        ((test_state (lanes 0x3FF0000000000000 0) (lanes 0 0x40000000)
           (lanes 0x3FF0000000000001 0) clear_fpscr)\<lparr>sum_conv := ConvAfterClear\<rparr>)
        test_instr))"
    using sum1_conversion_host_flags [of "0x3FF0000000000001"
        "(test_state (lanes 0x3FF0000000000000 0) (lanes 0 0x40000000)
           (lanes 0x3FF0000000000001 0) clear_fpscr)\<lparr>sum_conv := ConvAfterClear\<rparr>"
        "(test_state (lanes 0x3FF0000000000000 0) (lanes 0 0x40000000)
           (lanes 0x3FF0000000000001 0) clear_fpscr)\<lparr>sum_conv := ConvAfterClear\<rparr>"
        test_instr]
    by (simp add: n r conv_inexact Let_def psArith_ops_eval psArith_ops_eval_Suc ext_2f)
  show ?thesis
    using n(1) r a b by simp
qed

subsection \<open>Division: the exception conditions and a worked case\<close>

lemma round_half: "fp_round binary64 False (2 ^ 109) (- 110) = (0x3FE0000000000000, fe_none)"
  by (simp add: fp_defs)

lemma fp_div_1_2:
  "fp_div binary64 0x3FF0000000000000 0x4000000000000000
     = fp_round binary64 False (2 ^ 109) (- 110)"
  by (simp add: fp_div_def binary64_def fbits_def expmax_def bias_def qmin_def fp_sign_def
        fp_exp_def fp_frac_def fp_nan_def fp_snan_def fp_inf_def fp_zero_def fp_mant_def
        fp_expo_def Let_def)

lemma f64_div_1_2: "f64_div 0x3FF0000000000000 0x4000000000000000 = (0x3FE0000000000000, fe_none)"
  unfolding f64_div_def by (simp add: fp_div_1_2 [simplified] round_half [simplified] lift64_def)

lemma conv_half: "f64_to_f32 0x3FE0000000000000 = (0x3F000000, fe_none)"
  by (simp add: fp_defs)

lemma div_1_2: "psArith_compute PSDiv 0x3FF0000000000000 0x4000000000000000 = (0x3F000000, fe_none)"
  by (simp add: psArith_compute_def narrow_def f64_div_1_2 conv_half)

lemma f64_div_1_0: "f64_div 0x3FF0000000000000 0 = (0x7FF0000000000000, fe_divbyzero)"
  by (simp add: fp_defs)

lemma conv_inf: "f64_to_f32 0x7FF0000000000000 = (0x7F800000, fe_none)"
  by (simp add: fp_defs)

lemma div_1_0: "psArith_compute PSDiv 0x3FF0000000000000 0 = (0x7F800000, fe_divbyzero)"
  by (simp add: psArith_compute_def narrow_def f64_div_1_0 conv_inf)

lemma ext_1f: "extend_float 0x3F800000 = 0x3FF0000000000000"
  by (simp add: util_defs fp_defs)

lemma ext_inf: "extend_float 0x7F800000 = 0x7FF0000000000000"
  by (simp add: util_defs fp_defs)

lemma div_scenario:
  assumes "\<not> ze r"
  shows "fpr (ps_div (test_state (lanes 0x3FF0000000000000 0x3F800000) (lanes 0 0x40000000) C r)
                test_instr) (frD test_instr) = lanes 0x7FF0000000000000 0x3F000000"
    and "zx (fpscr (ps_div (test_state (lanes 0x3FF0000000000000 0x3F800000)
                (lanes 0 0x40000000) C r) test_instr))"
proof -
  let ?st = "test_state (lanes 0x3FF0000000000000 0x3F800000) (lanes 0 0x40000000) C r"
  have n: "\<not> is_nan 0x3FF0000000000000" "\<not> is_nan 0x4000000000000000" "\<not> is_nan 0"
    "\<not> is_infinity 0x3FF0000000000000" "\<not> is_zero 0x3FF0000000000000" "is_zero 0"
    "\<not> is_zero 0x4000000000000000" "\<not> is_signalling_nan 0x3FF0000000000000"
    "\<not> is_signalling_nan 0" "\<not> is_signalling_nan 0x4000000000000000"
    by (simp_all add: util_defs)
  have x0: "psArith_exc PSDiv 0x3FF0000000000000 0
      = \<lparr>e_vxsnan = False, e_vxisi = False, e_vximz = False, e_vxidi = False, e_vxzdz = False,
         e_vxsqrt = False, e_zx = True\<rparr>"
    by (simp add: psArith_exc_def n)
  have x1: "psArith_exc PSDiv 0x3FF0000000000000 0x4000000000000000 = no_exc"
    by (simp add: psArith_exc_def no_exc_def n)
  have g: "\<not> slot_gate (psArith_exc PSDiv 0x3FF0000000000000 0) r"
    "\<not> slot_gate (psArith_exc PSDiv 0x3FF0000000000000 0x4000000000000000) r"
    using assms by (simp_all add: x0 x1 slot_gate_def)
  have v0: "psArith_value PSDiv 0x3FF0000000000000 0 = 0x7F800000"
    by (simp add: psArith_value_def x0 n div_1_0)
  have v1: "psArith_value PSDiv 0x3FF0000000000000 0x4000000000000000 = 0x3F000000"
    by (simp add: psArith_value_def x1 n div_1_2)
  show "fpr (ps_div ?st test_instr) (frD test_instr) = lanes 0x7FF0000000000000 0x3F000000"
    by (simp add: ps_div_def psArithGeneric_fpr psArithSingle_snd psArith_ops_eval
          psArith_ops_eval_Suc ext_1f ext_2f ext_inf g v0 v1 lanes_def)
  have "raised (psArith_exc PSDiv 0x3FF0000000000000 0) (fpscr (ps_div ?st test_instr))"
    using psArithGeneric_fpscr [of PSDiv ?st test_instr 0 1]
    by (simp add: ps_div_def psArith_ops_eval)
  then show "zx (fpscr (ps_div ?st test_instr))"
    by (simp add: x0 raised_def)
qed

text \<open>
  Claim C7. In a slot of \<open>ps_div\<close> with the operands \<open>a\<close> (from \<open>frA\<close>) and \<open>b\<close> (from
  \<open>frB\<close>), vxidi is raised if and only if both are infinities, vxzdz if and only if both are
  zero, and zx if and only if \<open>b\<close> is zero and neither vxzdz nor vxsnan holds; each is or-ed
  into its sticky FPSCR bit. With \<open>A = {1.0, 1.0f}\<close>, \<open>B = {+0.0, 2.0f}\<close> and ZE clear, the
  destination is \<open>{+infinity, 0.5f}\<close> and FPSCR.ZX is set.
\<close>

theorem ps_div_flags:
  "(let x = psArith_exc PSDiv a b
    in (e_vxidi x \<longleftrightarrow> is_infinity a \<and> is_infinity b)
       \<and> (e_vxzdz x \<longleftrightarrow> is_zero a \<and> is_zero b)
       \<and> (e_zx x \<longleftrightarrow> is_zero b \<and> \<not> e_vxzdz x \<and> \<not> e_vxsnan x))
   \<and> (let x = psArith_exc PSDiv (psArith_a sa s i) (psArith_b PSDiv sb s i);
          r' = fpscr (fst (psArithSingle PSDiv sa sb s i))
      in (vxidi r' \<longleftrightarrow> vxidi (fpscr s) \<or> e_vxidi x)
         \<and> (vxzdz r' \<longleftrightarrow> vxzdz (fpscr s) \<or> e_vxzdz x)
         \<and> (zx r' \<longleftrightarrow> zx (fpscr s) \<or> e_zx x))
   \<and> (\<not> ze r \<longrightarrow>
        (let st = test_state (lanes 0x3FF0000000000000 0x3F800000) (lanes 0 0x40000000) C r
         in fpr (ps_div st test_instr) (frD test_instr) = lanes 0x7FF0000000000000 0x3F000000
            \<and> zx (fpscr (ps_div st test_instr))))"
proof -
  have a: "(e_vxidi (psArith_exc PSDiv a b) \<longleftrightarrow> is_infinity a \<and> is_infinity b)
       \<and> (e_vxzdz (psArith_exc PSDiv a b) \<longleftrightarrow> is_zero a \<and> is_zero b)
       \<and> (e_zx (psArith_exc PSDiv a b) \<longleftrightarrow> is_zero b \<and> \<not> e_vxzdz (psArith_exc PSDiv a b)
             \<and> \<not> e_vxsnan (psArith_exc PSDiv a b))"
    by (auto simp add: psArith_exc_def Let_def)
  have b: "(vxidi (fpscr (fst (psArithSingle PSDiv sa sb s i))) \<longleftrightarrow> vxidi (fpscr s)
             \<or> e_vxidi (psArith_exc PSDiv (psArith_a sa s i) (psArith_b PSDiv sb s i)))
         \<and> (vxzdz (fpscr (fst (psArithSingle PSDiv sa sb s i))) \<longleftrightarrow> vxzdz (fpscr s)
             \<or> e_vxzdz (psArith_exc PSDiv (psArith_a sa s i) (psArith_b PSDiv sb s i)))
         \<and> (zx (fpscr (fst (psArithSingle PSDiv sa sb s i))) \<longleftrightarrow> zx (fpscr s)
             \<or> e_zx (psArith_exc PSDiv (psArith_a sa s i) (psArith_b PSDiv sb s i)))"
    by (simp add: psArithSingle_fpscr raise_exc_def)
  show ?thesis
    unfolding Let_def using a b div_scenario [of r C] by blast
qed

theorem ps_div_flags_witness:
  "\<not> ze clear_fpscr
   \<and> fpr (ps_div (test_state (lanes 0x3FF0000000000000 0x3F800000) (lanes 0 0x40000000)
               (lanes 0 0) clear_fpscr) test_instr) (frD test_instr)
         = lanes 0x7FF0000000000000 0x3F000000
   \<and> zx (fpscr (ps_div (test_state (lanes 0x3FF0000000000000 0x3F800000) (lanes 0 0x40000000)
               (lanes 0 0) clear_fpscr) test_instr))
   \<and> e_vxidi (psArith_exc PSDiv 0x7FF0000000000000 0xFFF0000000000000)
   \<and> e_vxzdz (psArith_exc PSDiv 0 0x8000000000000000)
   \<and> \<not> e_zx (psArith_exc PSDiv 0 0x8000000000000000)
   \<and> e_zx (psArith_exc PSDiv 0x3FF0000000000000 0)"
proof -
  have n: "is_infinity 0x7FF0000000000000" "is_infinity 0xFFF0000000000000" "is_zero 0"
    "is_zero 0x8000000000000000" "\<not> is_zero 0x3FF0000000000000"
    "\<not> is_signalling_nan 0x3FF0000000000000" "\<not> is_signalling_nan 0"
    by (simp_all add: util_defs)
  have z: "\<not> ze clear_fpscr"
    by (simp add: clear_fpscr_def)
  show ?thesis
    using ps_div_flags [where a = "0x7FF0000000000000" and b = "0xFFF0000000000000"
        and r = clear_fpscr and C = "lanes 0 0"]
      ps_div_flags [where a = 0 and b = "0x8000000000000000"]
      ps_div_flags [where a = "0x3FF0000000000000" and b = 0]
    by (simp add: Let_def n z psArith_exc_def)
qed

subsection \<open>Moves of a signalling NaN\<close>

lemma const_80000000_32: "(0x80000000 :: 32 word) = push_bit 31 1"
  by (simp add: push_bit_eq_mult)

lemma const_80000000_64: "(0x8000000000000000 :: 64 word) = push_bit 63 1"
  by (simp add: push_bit_eq_mult)

lemma bit_sign_32: "bit (0x80000000 :: 32 word) n \<longleftrightarrow> n = 31"
  apply (subst const_80000000_32)
  apply (simp only: bit_push_bit_iff bit_1_iff possible_bit_word)
  apply auto
  done

lemma bit_sign_64: "bit (0x8000000000000000 :: 64 word) n \<longleftrightarrow> n = 63"
  apply (subst const_80000000_64)
  apply (simp only: bit_push_bit_iff bit_1_iff possible_bit_word)
  apply auto
  done

lemma snan_exponent: "is_signalling_nan x \<Longrightarrow> 52 \<le> n \<Longrightarrow> n < 63 \<Longrightarrow> bit x n"
  by (simp add: is_signalling_nan_def is_nan_def exponent_d_ones)

lemma extend_low_bits:
  assumes "is_signalling_nan x" and d: "\<And>m. m < 31 \<Longrightarrow> bit d m = bit (truncate_double_bits x) m"
    and n: "n < 63"
  shows "bit (extend_float_nan_bits d) n \<longleftrightarrow> bit x n \<and> 29 \<le> n"
proof -
  consider "n < 29" | "29 \<le> n" "n < 59" | "59 \<le> n" "n < 62" | "n = 62"
    using n by linarith
  then show ?thesis
  proof cases
    case 1
    then show ?thesis by (simp add: bit_extend_float_nan_bits)
  next
    case 2
    then have "bit d (n - 29) = bit (truncate_double_bits x) (n - 29)"
      by (intro d) simp
    moreover have "n - 29 < 30" "n - 29 + 29 = n"
      using 2 by simp_all
    ultimately show ?thesis
      using 2 by (simp add: bit_extend_float_nan_bits bit_truncate_double_bits)
  next
    case 3
    have "bit d 30 = bit (truncate_double_bits x) 30"
      by (intro d) simp
    moreover have "bit x 62" "bit x n"
      using snan_exponent [OF assms(1), of 62] snan_exponent [OF assms(1), of n] 3 by simp_all
    ultimately show ?thesis
      using 3 by (simp add: bit_extend_float_nan_bits bit_truncate_double_bits)
  next
    case 4
    have "bit d 30 = bit (truncate_double_bits x) 30"
      by (intro d) simp
    with 4 show ?thesis by (simp add: bit_extend_float_nan_bits bit_truncate_double_bits)
  qed
qed

lemma extend_sign_bit: "bit (extend_float_nan_bits d) 63 = bit d 31"
  by (simp add: bit_extend_float_nan_bits)

lemma bit_clear_low: "bit (x AND NOT (mask 29)) n \<longleftrightarrow> bit x n \<and> 29 \<le> n" for x :: "64 word"
  by (auto simp add: bit_and_iff bit_not_iff bit_mask_iff dest: bit_imp_le_length)

lemma bit_sign_ops_32:
  "bit (y XOR 0x80000000) n \<longleftrightarrow> bit y n \<noteq> (n = 31)"
  "bit (y AND NOT 0x80000000) n \<longleftrightarrow> bit y n \<and> n \<noteq> 31"
  "bit (y OR 0x80000000) n \<longleftrightarrow> bit y n \<or> n = 31" for y :: "32 word"
    apply (simp_all only: bit_xor_iff bit_and_iff bit_or_iff bit_not_iff bit_sign_32
        possible_bit_word)
   apply (auto dest: bit_imp_le_length)
  done

lemma bit_sign_ops_64:
  "bit (y XOR 0x8000000000000000) n \<longleftrightarrow> bit y n \<noteq> (n = 63)"
  "bit (y AND NOT 0x8000000000000000) n \<longleftrightarrow> bit y n \<and> n \<noteq> 63"
  "bit (y OR 0x8000000000000000) n \<longleftrightarrow> bit y n \<or> n = 63" for y :: "64 word"
    apply (simp_all only: bit_xor_iff bit_and_iff bit_or_iff bit_not_iff bit_sign_64
        possible_bit_word)
   apply (auto dest: bit_imp_le_length)
  done

lemma snan_round_trip_bits:
  assumes "is_signalling_nan x"
    and low: "\<And>m. m < 31 \<Longrightarrow> bit d m = bit (truncate_double_bits x) m"
    and high: "\<And>m. m < 63 \<Longrightarrow> bit e m = bit (x AND NOT (mask 29)) m"
    and sign: "bit e 63 = bit d 31"
  shows "extend_float_nan_bits d = e"
proof (rule bit_word_eqI)
  fix n assume "n < LENGTH(64)"
  then consider "n < 63" | "n = 63" by fastforce
  then show "bit (extend_float_nan_bits d) n = bit e n"
  proof cases
    case 1
    then show ?thesis
      by (simp only: high bit_clear_low extend_low_bits [OF assms(1) low])
  next
    case 2
    then show ?thesis
      by (simp only: extend_sign_bit sign)
  qed
qed

lemma snan_round_trip:
  assumes "is_signalling_nan x"
  shows "extend_float_nan_bits (truncate_double_bits x) = x AND NOT (mask 29)"
    and "extend_float_nan_bits (truncate_double_bits x XOR 0x80000000)
           = (x AND NOT (mask 29)) XOR 0x8000000000000000"
    and "extend_float_nan_bits (truncate_double_bits x AND NOT 0x80000000)
           = (x AND NOT (mask 29)) AND NOT 0x8000000000000000"
    and "extend_float_nan_bits (truncate_double_bits x OR 0x80000000)
           = (x AND NOT (mask 29)) OR 0x8000000000000000"
proof -
  have s: "bit (truncate_double_bits x) 31 = bit x 63"
    by (simp add: bit_truncate_double_bits)
  have t: "bit (x AND NOT (mask 29)) 63 = bit x 63"
    by (simp only: bit_clear_low) simp
  show "extend_float_nan_bits (truncate_double_bits x) = x AND NOT (mask 29)"
    by (rule snan_round_trip_bits [OF assms]) (simp_all only: s t)
  show "extend_float_nan_bits (truncate_double_bits x XOR 0x80000000)
           = (x AND NOT (mask 29)) XOR 0x8000000000000000"
    by (rule snan_round_trip_bits [OF assms]; simp only: bit_sign_ops_32 bit_sign_ops_64 s t)
       simp_all
  show "extend_float_nan_bits (truncate_double_bits x AND NOT 0x80000000)
           = (x AND NOT (mask 29)) AND NOT 0x8000000000000000"
    by (rule snan_round_trip_bits [OF assms]; simp only: bit_sign_ops_32 bit_sign_ops_64 s t)
       simp_all
  show "extend_float_nan_bits (truncate_double_bits x OR 0x80000000)
           = (x AND NOT (mask 29)) OR 0x8000000000000000"
    by (rule snan_round_trip_bits [OF assms]; simp only: bit_sign_ops_32 bit_sign_ops_64 s t)
       simp_all
qed

lemma clear_low_id: "(x AND NOT (mask 29) = x) \<longleftrightarrow> take_bit 29 x = 0" for x :: "64 word"
  by (auto simp add: bit_eq_iff bit_simps)

lemma moveGeneric_snan:
  assumes "is_signalling_nan (paired0 (fpr s (frB i)))"
  shows "paired0 (fpr (moveGeneric mode s i) (frD i))
     = extend_float_nan_bits
         (case mode of
            MoveDirect \<Rightarrow> truncate_double_bits (paired0 (fpr s (frB i)))
          | MoveNegate \<Rightarrow> truncate_double_bits (paired0 (fpr s (frB i))) XOR 0x80000000
          | MoveAbsolute \<Rightarrow> truncate_double_bits (paired0 (fpr s (frB i))) AND NOT 0x80000000
          | MoveNegAbsolute \<Rightarrow> truncate_double_bits (paired0 (fpr s (frB i))) OR 0x80000000)"
  using assms by (simp add: moveGeneric_def Let_def)

text \<open>
  Claim C6. For \<open>ps_mr\<close>, \<open>ps_neg\<close>, \<open>ps_abs\<close> and \<open>ps_nabs\<close> whose lane-0 source is a
  signalling NaN, the destination's lane 0 is the source's bit pattern with the low 29 bits
  of the mantissa cleared and the sign bit transformed by the mode (kept, flipped, cleared,
  set): sign, exponent and the high 23 bits of the mantissa are preserved. It is the source's
  pattern up to the sign exactly if the low 29 bits of the source are zero.
\<close>

theorem move_snan_sign_only:
  assumes "is_signalling_nan (idw (fpr s (frB i)))"
  shows "let x = idw (fpr s (frB i)); y = x AND NOT (mask 29)
         in idw (fpr (ps_mr s i) (frD i)) = y
            \<and> idw (fpr (ps_neg s i) (frD i)) = y XOR 0x8000000000000000
            \<and> idw (fpr (ps_abs s i) (frD i)) = y AND NOT 0x8000000000000000
            \<and> idw (fpr (ps_nabs s i) (frD i)) = y OR 0x8000000000000000
            \<and> (y = x \<longleftrightarrow> take_bit 29 x = 0)"
proof -
  have "idw (fpr (ps_mr s i) (frD i)) = idw (fpr s (frB i)) AND NOT (mask 29)"
    using moveGeneric_snan [OF assms, of MoveDirect]
    by (simp only: ps_mr_def MoveMode.case snan_round_trip [OF assms])
  moreover have "idw (fpr (ps_neg s i) (frD i))
      = (idw (fpr s (frB i)) AND NOT (mask 29)) XOR 0x8000000000000000"
    using moveGeneric_snan [OF assms, of MoveNegate]
    by (simp only: ps_neg_def MoveMode.case snan_round_trip [OF assms])
  moreover have "idw (fpr (ps_abs s i) (frD i))
      = (idw (fpr s (frB i)) AND NOT (mask 29)) AND NOT 0x8000000000000000"
    using moveGeneric_snan [OF assms, of MoveAbsolute]
    by (simp only: ps_abs_def MoveMode.case snan_round_trip [OF assms])
  moreover have "idw (fpr (ps_nabs s i) (frD i))
      = (idw (fpr s (frB i)) AND NOT (mask 29)) OR 0x8000000000000000"
    using moveGeneric_snan [OF assms, of MoveNegAbsolute]
    by (simp only: ps_nabs_def MoveMode.case snan_round_trip [OF assms])
  ultimately show ?thesis
    by (simp only: Let_def clear_low_id)
qed

lemma snan_low: "is_signalling_nan 0x7FF0000000000001"
  by (simp add: util_defs)

lemma snan_high: "is_signalling_nan 0x7FF4000020000000"
  by (simp add: util_defs)

lemma clear_low_high: "(0x7FF4000020000000 :: 64 word) AND NOT (mask 29) = 0x7FF4000020000000"
  by (simp only: clear_low_id) simp

lemma clear_low_low: "(0x7FF0000000000001 :: 64 word) AND NOT (mask 29) = 0x7FF0000000000000"
  by (simp add: mask_eq_exp_minus_1)

theorem move_snan_sign_only_witness:
  "is_signalling_nan 0x7FF4000020000000
   \<and> idw (fpr (ps_mr (test_state (lanes 0 0) (lanes 0x7FF4000020000000 0) (lanes 0 0) clear_fpscr)
                 test_instr) (frD test_instr)) = 0x7FF4000020000000
   \<and> idw (fpr (ps_neg (test_state (lanes 0 0) (lanes 0x7FF4000020000000 0) (lanes 0 0) clear_fpscr)
                 test_instr) (frD test_instr)) = 0xFFF4000020000000"
proof -
  have "is_signalling_nan (idw (fpr (test_state (lanes 0 0) (lanes 0x7FF4000020000000 0)
      (lanes 0 0) clear_fpscr) (frB test_instr)))"
    by (simp add: snan_high)
  from move_snan_sign_only [OF this] show ?thesis
    by (simp add: Let_def snan_high clear_low_high)
qed

text \<open>A signalling NaN whose payload lies in the low 29 bits only: \<open>ps_mr\<close> does not
  reproduce its bits, and the destination is not even a NaN.\<close>

theorem move_snan_low_bits_lost:
  "is_signalling_nan 0x7FF0000000000001
   \<and> idw (fpr (test_state (lanes 0 0) (lanes 0x7FF0000000000001 0) (lanes 0 0) clear_fpscr)
                 (frB test_instr)) = 0x7FF0000000000001
   \<and> idw (fpr (ps_mr (test_state (lanes 0 0) (lanes 0x7FF0000000000001 0) (lanes 0 0) clear_fpscr)
                 test_instr) (frD test_instr)) = 0x7FF0000000000000
   \<and> \<not> is_nan (idw (fpr (ps_mr (test_state (lanes 0 0) (lanes 0x7FF0000000000001 0) (lanes 0 0)
                 clear_fpscr) test_instr) (frD test_instr)))"
proof -
  have s: "is_signalling_nan (idw (fpr (test_state (lanes 0 0) (lanes 0x7FF0000000000001 0)
      (lanes 0 0) clear_fpscr) (frB test_instr)))"
    by (simp add: snan_low)
  have "idw (fpr (ps_mr (test_state (lanes 0 0) (lanes 0x7FF0000000000001 0) (lanes 0 0)
      clear_fpscr) test_instr) (frD test_instr)) = 0x7FF0000000000000"
    using moveGeneric_snan [OF s, of MoveDirect]
    by (simp add: ps_mr_def snan_round_trip [OF snan_low] clear_low_low)
  then show ?thesis
    by (simp add: snan_low util_defs)
qed

subsection \<open>Merge: lane 1 from a double\<close>

lemma merge_flags [simp]: "(0::nat) AND MergeValue1 = 0" "MergeValue0 AND MergeValue1 = 0"
  by (simp_all add: MergeValue0_def MergeValue1_def)

text \<open>
  Claim C3. For \<open>ps_merge00\<close> and \<open>ps_merge10\<close>, whose output lane 1 comes from lane 0 of
  \<open>frB\<close>, lane 1 of the destination is the bit-level truncation
  \<open>truncate_double_bits\<close> of that double, in every state: the mantissa is cut, not rounded.
  For the double \<open>0x3FF0000010000001\<close>, which lies above the middle of two floats, lane 1 is
  the lower float \<open>0x3F800000\<close>, where rounding to nearest gives \<open>0x3F800001\<close>.
\<close>

theorem merge_lane1_truncated:
  "paired1 (fpr (ps_merge00 s i) (frD i)) = truncate_double_bits (idw (fpr s (frB i)))
   \<and> paired1 (fpr (ps_merge10 s i) (frD i)) = truncate_double_bits (idw (fpr s (frB i)))
   \<and> paired1 (fpr (ps_merge00 (test_state (lanes 0 0) (lanes 0x3FF0000010000001 0) (lanes 0 0)
         clear_fpscr) test_instr) (frD test_instr)) = 0x3F800000
   \<and> fst (f64_to_f32 0x3FF0000010000001) = 0x3F800001"
proof -
  have a: "paired1 (fpr (mergeGeneric fl s i) (frD i)) = truncate_double_bits (idw (fpr s (frB i)))"
    if "fl AND MergeValue1 = 0" for fl s i
    using that by (simp add: mergeGeneric_def Let_def split_beta truncate_double_def)
  have b: "truncate_double_bits 0x3FF0000010000001 = 0x3F800000"
    by (simp add: truncate_double_bits_def)
  have c: "fst (f64_to_f32 0x3FF0000010000001) = 0x3F800001"
    by (simp add: fp_defs)
  show ?thesis
    by (simp add: ps_merge00_def ps_merge10_def a b c)
qed

subsection \<open>Select\<close>

lemma nan_enc32:
  assumes "q < 2 ^ 23" "q \<noteq> 0"
  shows "fp_nan binary32 ((if s then 2 ^ 31 else 0) + 255 * 2 ^ 23 + q)"
proof -
  have d: "(k * 8388608 + q) div 8388608 = k" "(k * 8388608 + q) mod 8388608 = q" for k
    using assms by simp_all
  have "(2147483648 + 2139095040 + q) = 511 * 8388608 + q" "(2139095040 + q) = 255 * 8388608 + q"
    by simp_all
  then have a: "(2147483648 + 2139095040 + q) div 8388608 = 511"
    "(2139095040 + q) div 8388608 = 255"
    "(2147483648 + 2139095040 + q) mod 8388608 = q" "(2139095040 + q) mod 8388608 = q"
    by (simp_all only: d)
  show ?thesis
    by (cases s)
       (use assms a in \<open>simp_all add: fp_nan_def fp_exp_def fp_frac_def expmax_def fbits_def
          binary32_def\<close>)
qed

lemma convert_nan:
  assumes "fp_nan binary64 x"
  shows "fp_nan binary32 (fst (fp_convert binary64 binary32 x))"
    and "fst (fp_convert binary64 binary32 x) < 2 ^ 32"
proof -
  define p where "p = (fp_frac binary64 x * 2 ^ 23) div 2 ^ 52"
  define q where "q = quiet_enc binary32 p mod 2 ^ 23"
  have "fp_frac binary64 x < 2 ^ 52"
    by (simp add: fp_frac_def fbits_def binary64_def)
  then have p: "p < 2 ^ 23"
    unfolding p_def by (simp add: less_mult_imp_div_less)
  then have f: "fp_frac binary32 p = p"
    by (simp add: fp_frac_def fbits_def binary32_def)
  have "quiet_enc binary32 p = (if p < 2 ^ 22 then p + 2 ^ 22 else p)"
    unfolding quiet_enc_def f by (simp add: fbits_def binary32_def)
  then have "q = (if p < 2 ^ 22 then p + 2 ^ 22 else p)"
    using p by (simp add: q_def)
  then have q: "q < 2 ^ 23" "q \<noteq> 0"
    using p by (simp_all split: if_splits)
  have r: "fst (fp_convert binary64 binary32 x)
      = (if fp_sign binary64 x then 2 ^ 31 else 0) + 255 * 2 ^ 23 + q"
    using assms
    by (simp add: fp_convert_def sign_enc_def expmax_def fbits_def binary32_def binary64_def
          q_def p_def)
  then show "fp_nan binary32 (fst (fp_convert binary64 binary32 x))"
    using nan_enc32 [OF q] by simp
  show "fst (fp_convert binary64 binary32 x) < 2 ^ 32"
    unfolding r using q(1) by simp
qed

lemma f64_to_f32_nan:
  assumes "fp_nan binary64 (unat a)"
  shows "fp_nan binary32 (unat (fst (f64_to_f32 a)))"
  using convert_nan [OF assms]
  by (simp add: f64_to_f32_def lift32_def unat_of_nat)

lemma ge_zero_nan: "fp_nan binary32 (unat w) \<Longrightarrow> \<not> fst (f32_ge_zero w)"
  by (simp add: f32_ge_zero_def fp_ge_zero_def)

lemma ps_sel_result:
  "paired1 (fpr (ps_sel s i) (frD i))
     = (if fst (f32_ge_zero (paired1 (fpr s (frA i)))) then paired1 (fpr s (frC i))
        else paired1 (fpr s (frB i)))"
  "paired0 (fpr (ps_sel s i) (frD i))
     = fst (f32_to_f64 (fst (f64_to_f32
         (if fst (f32_ge_zero (fst (f64_to_f32 (paired0 (fpr s (frA i))))))
          then paired0 (fpr s (frC i)) else paired0 (fpr s (frB i))))))"
  "fpscr (ps_sel s i) = fpscr s"
  by (simp_all add: ps_sel_def Let_def)

text \<open>
  Claim C4. \<open>ps_sel\<close> leaves the FPSCR unchanged. Lane 1 of the destination is a copy of
  the bits of lane 1 of \<open>frC\<close> if lane 1 of \<open>frA\<close> is greater than or equal to zero, and
  of \<open>frB\<close> otherwise; a NaN in \<open>frA\<close> selects \<open>frB\<close>. Lane 0 is not a copy of bits:
  the three lane-0 doubles are read into floats, so the choice is made on \<open>frA\<close>'s lane 0
  rounded to single precision, and the destination takes the chosen double rounded to single
  precision and widened again; a NaN in \<open>frA\<close> selects \<open>frB\<close> here as well.
\<close>

theorem sel_lanes:
  "(let A = fpr s (frA i); B = fpr s (frB i); C = fpr s (frC i); D = fpr (ps_sel s i) (frD i);
        a0 = fst (f64_to_f32 (paired0 A))
    in paired1 D = (if fst (f32_ge_zero (paired1 A)) then paired1 C else paired1 B)
       \<and> (fp_nan binary32 (unat (paired1 A)) \<longrightarrow> paired1 D = paired1 B)
       \<and> paired0 D = fst (f32_to_f64 (fst (f64_to_f32
                         (if fst (f32_ge_zero a0) then paired0 C else paired0 B))))
       \<and> (fp_nan binary64 (unat (paired0 A)) \<longrightarrow>
             paired0 D = fst (f32_to_f64 (fst (f64_to_f32 (paired0 B)))))
       \<and> fpscr (ps_sel s i) = fpscr s)"
  by (simp add: Let_def ps_sel_result ge_zero_nan f64_to_f32_nan)

lemma conv_one: "f64_to_f32 0x3FF0000000000000 = (0x3F800000, fe_none)"
  by (simp add: fp_defs)

lemma widen_one: "f32_to_f64 0x3F800000 = (0x3FF0000000000000, fe_none)"
  by (simp add: fp_defs)

lemma nan_consts: "fp_nan binary32 0x7FC00000" "fp_nan binary64 0x7FF8000000000000"
  by (simp_all add: fp_defs)

theorem sel_lanes_witness:
  "fp_nan binary32 (unat (0x7FC00000 :: 32 word))
   \<and> fp_nan binary64 (unat (0x7FF8000000000000 :: 64 word))
   \<and> paired1 (fpr (ps_sel (test_state (lanes 0x7FF8000000000000 0x7FC00000)
                (lanes 0x3FF0000000000000 0x3F800000) (lanes 0 0x40000000) clear_fpscr)
                test_instr) (frD test_instr)) = 0x3F800000
   \<and> paired0 (fpr (ps_sel (test_state (lanes 0x7FF8000000000000 0x7FC00000)
                (lanes 0x3FF0000000000000 0x3F800000) (lanes 0 0x40000000) clear_fpscr)
                test_instr) (frD test_instr)) = 0x3FF0000000000000"
proof -
  let ?st = "test_state (lanes 0x7FF8000000000000 0x7FC00000)
      (lanes 0x3FF0000000000000 0x3F800000) (lanes 0 0x40000000) clear_fpscr"
  note t = sel_lanes [of ?st test_instr, unfolded Let_def]
  have n: "fp_nan binary32 (unat (paired1 (fpr ?st (frA test_instr))))"
    "fp_nan binary64 (unat (paired0 (fpr ?st (frA test_instr))))"
    by (simp_all add: nan_consts)
  have "paired1 (fpr (ps_sel ?st test_instr) (frD test_instr)) = paired1 (fpr ?st (frB test_instr))"
    using t n(1) by blast
  moreover have "paired0 (fpr (ps_sel ?st test_instr) (frD test_instr))
      = fst (f32_to_f64 (fst (f64_to_f32 (paired0 (fpr ?st (frB test_instr))))))"
    using t n(2) by blast
  ultimately show ?thesis
    by (simp add: nan_consts conv_one widen_one)
qed

lemma conv_tiny_neg: "f64_to_f32 0xB370000000000000
    = (0x80000000, fe_none\<lparr>FE_UNDERFLOW := True, FE_INEXACT := True\<rparr>)"
  by (simp add: fp_defs)

lemma ge_zero_consts: "fst (f32_ge_zero 0x3F800000)" "fst (f32_ge_zero 0x80000000)"
  by (simp_all add: f32_ge_zero_def fp_defs)

text \<open>Lane 0 of \<open>frA\<close> is \<open>1.0\<close>, so lane 0 of \<open>frC\<close> is chosen; it is \<open>1 + 2^-52\<close>,
  and the destination takes \<open>1.0\<close>, the bits of neither \<open>frC\<close> nor \<open>frB\<close>. And with
  \<open>-2^-200\<close> in lane 0 of \<open>frA\<close>, which is less than zero but rounds to the float
  \<open>-0.0\<close>, lane 0 of \<open>frC\<close> is chosen, not that of \<open>frB\<close>.\<close>

theorem sel_lane0_not_bit_copy:
  "fst (f32_ge_zero (fst (f64_to_f32 0x3FF0000000000000)))
   \<and> paired0 (fpr (ps_sel (test_state (lanes 0x3FF0000000000000 0) (lanes 0 0)
                (lanes 0x3FF0000000000001 0) clear_fpscr) test_instr) (frD test_instr))
         = 0x3FF0000000000000
   \<and> paired0 (fpr (ps_sel (test_state (lanes 0x3FF0000000000000 0) (lanes 0 0)
                (lanes 0x3FF0000000000001 0) clear_fpscr) test_instr) (frD test_instr))
         \<noteq> paired0 (fpr (test_state (lanes 0x3FF0000000000000 0) (lanes 0 0)
                (lanes 0x3FF0000000000001 0) clear_fpscr) (frC test_instr))
   \<and> paired0 (fpr (ps_sel (test_state (lanes 0x3FF0000000000000 0) (lanes 0 0)
                (lanes 0x3FF0000000000001 0) clear_fpscr) test_instr) (frD test_instr))
         \<noteq> paired0 (fpr (test_state (lanes 0x3FF0000000000000 0) (lanes 0 0)
                (lanes 0x3FF0000000000001 0) clear_fpscr) (frB test_instr))
   \<and> \<not> fst (fp_ge_zero binary64 (unat (0xB370000000000000 :: 64 word)))
   \<and> paired0 (fpr (ps_sel (test_state (lanes 0xB370000000000000 0) (lanes 0x4000000000000000 0)
                (lanes 0x3FF0000000000000 0) clear_fpscr) test_instr) (frD test_instr))
         = 0x3FF0000000000000"
proof -
  have "\<not> fst (fp_ge_zero binary64 0xB370000000000000)"
    by (simp add: fp_defs)
  then show ?thesis
    by (simp add: ps_sel_result conv_one ge_zero_consts conv_inexact widen_one conv_tiny_neg)
qed

subsection \<open>The JIT's multiply-add against the interpreter's\<close>

lemma mul_eps: "f64_mul 0x3FF0000000000001 0x3FF0000000000001
                  = (0x3FF0000000000002, fe_none\<lparr>FE_INEXACT := True\<rparr>)"
  by (simp add: fp_defs)

lemma add_cancel: "f64_add 0x3FF0000000000002 0xBFF0000000000002 = (0, fe_none)"
  by (simp add: fp_defs)

lemma conv_zero: "f64_to_f32 0 = (0, fe_none)" "f32_to_f64 0 = (0, fe_none)"
  by (simp_all add: fp_defs)

lemma fma_eps: "f64_fma 0x3FF0000000000001 0x3FF0000000000001 0xBFF0000000000002
                  = (0x3970000000000000, fe_none)"
  by (simp add: fp_defs)

lemma conv_tiny: "f64_to_f32 0x3970000000000000 = (0x0B800000, fe_none)"
  by (simp add: fp_defs)

lemma ext_tiny: "extend_float 0x0B800000 = 0x3970000000000000"
  by (simp add: util_defs fp_defs)

lemma fma_zero: "f64_fma 0 0 0 = (0, fe_none)"
  by (simp add: fp_defs)

lemma ext_zero: "extend_float 0 = 0"
  by (simp add: util_defs fp_defs)


lemma rc_test: "\<not> rc test_instr"
  by (simp add: test_instr_def)

text \<open>
  Claim C2. On a clean input (no NaN, no infinity, FPSCR and host flags clear, record bit
  clear) the code the JIT emits for \<open>fmadds\<close> and the interpreter's fused multiply-add
  disagree: with \<open>frA\<close> and \<open>frC\<close> holding \<open>1 + 2^-52\<close> and \<open>frB\<close> holding
  \<open>-(1 + 2^-51)\<close>, \<open>mulsd\<close> rounds the product to \<open>1 + 2^-51\<close> and \<open>addsd\<close> gives
  zero, so the JIT leaves \<open>+0.0\<close> in lane 0, while \<open>std::fma\<close> in \<open>fmaSingle\<close> keeps
  the exact product and \<open>ps_madd\<close> writes \<open>2^-104\<close>. The JIT rounds after the
  multiplication and again after the addition.
\<close>

theorem jit_fmadds_not_fused:
  "(let st = test_state (lanes 0x3FF0000000000001 0) (lanes 0xBFF0000000000002 0)
               (lanes 0x3FF0000000000001 0) clear_fpscr
    in \<not> rc test_instr
       \<and> fpscr st = clear_fpscr \<and> fenv st = fe_none
       \<and> \<not> is_nan (idw (fpr st (frA test_instr))) \<and> \<not> is_infinity (idw (fpr st (frA test_instr)))
       \<and> \<not> is_nan (idw (fpr st (frB test_instr))) \<and> \<not> is_infinity (idw (fpr st (frB test_instr)))
       \<and> \<not> is_nan (idw (fpr st (frC test_instr))) \<and> \<not> is_infinity (idw (fpr st (frC test_instr)))
       \<and> fmadds st test_instr = Some (0, fe_none\<lparr>FE_INEXACT := True\<rparr>)
       \<and> fmadd st test_instr = Some (0, fe_none\<lparr>FE_INEXACT := True\<rparr>)
       \<and> f64_fma (idw (fpr st (frA test_instr))) (idw (fpr st (frC test_instr)))
             (idw (fpr st (frB test_instr))) = (0x3970000000000000, fe_none)
       \<and> snd (fmaSingle 0 0 0 st test_instr) = Some 0x0B800000
       \<and> paired0 (fpr (ps_madd st test_instr) (frD test_instr)) = 0x3970000000000000)"
proof -
  let ?st = "test_state (lanes 0x3FF0000000000001 0) (lanes 0xBFF0000000000002 0)
               (lanes 0x3FF0000000000001 0) clear_fpscr"
  have n: "\<not> is_nan 0x3FF0000000000001" "\<not> is_nan 0xBFF0000000000002" "\<not> is_nan 0"
    "\<not> is_infinity 0x3FF0000000000001" "\<not> is_infinity 0xBFF0000000000002"
    "\<not> is_infinity 0" "\<not> is_signalling_nan 0x3FF0000000000001"
    "\<not> is_signalling_nan 0xBFF0000000000002" "\<not> is_signalling_nan 0"
    by (simp_all add: util_defs)
  have j: "fmadds ?st test_instr = Some (0, fe_none\<lparr>FE_INEXACT := True\<rparr>)"
    "fmadd ?st test_instr = Some (0, fe_none\<lparr>FE_INEXACT := True\<rparr>)"
    using rc_test
    by (simp_all add: fmadds_def fmadd_def fmaddGeneric_def truncateToSingle_def Let_def mul_eps
          add_cancel conv_zero fe_or_def fe_none_def)
  have c0: "fma_compute 0 0x3FF0000000000001 0xBFF0000000000002 0x3FF0000000000001
              = (0x0B800000, fe_none)"
    by (simp add: fma_compute_def fma_addend_def narrow_def fma_eps conv_tiny Let_def)
  have c1: "fma_compute 0 0 0 0 = (0, fe_none)"
    by (simp add: fma_compute_def fma_addend_def narrow_def fma_zero conv_zero Let_def)
  have x0: "fma_exc 0 0x3FF0000000000001 0xBFF0000000000002 0x3FF0000000000001 = no_exc"
    "fma_exc 0 0 0 0 = no_exc"
    by (simp_all add: fma_exc_def no_exc_def n)
  have s0: "snd (fmaSingle 0 0 0 ?st test_instr) = Some 0x0B800000"
    by (simp add: fmaSingle_snd fma_ops_eval Let_def x0 n c0)
  have s1: "snd (fmaSingle 0 1 1 ?st test_instr) = Some 0"
    using fma_ops_eval(4-6) [of "lanes 0x3FF0000000000001 0" "lanes 0xBFF0000000000002 0"
        "lanes 0x3FF0000000000001 0" clear_fpscr]
    by (simp add: fmaSingle_snd Let_def ext_zero x0 n c1)
  have p: "paired0 (fpr (ps_madd ?st test_instr) (frD test_instr)) = 0x3970000000000000"
    using s0 s1 by (simp add: ps_madd_def fmaGeneric_fpr ext_tiny)
  show ?thesis
    unfolding Let_def using j s0 p rc_test by (simp add: n fma_eps)
qed

end
